theory Spec2Isabelle
  imports Complex_Main "HOL-Library.Sublist"
begin

section \<open>JavaScript values used by the application\<close>

text \<open>
  A JavaScript string is modelled as a \<^typ>\<open>string\<close>; every string the theorems below
  evaluate is ASCII. A string is falsy exactly when it is empty.
\<close>

definition truthy :: "string \<Rightarrow> bool" where
  "truthy s = (s \<noteq> [])"

text \<open>
  A \<open>Date\<close> object holds a time value (milliseconds since the epoch, UTC) or is an
  Invalid Date. A string-typed field of a record held in memory is a string, a
  \<open>Date\<close>, \<open>null\<close> or \<open>undefined\<close>; the same field inside a JSON text is a string,
  \<open>null\<close> or absent. Numbers (coordinates, intensity) are finite and modelled as
  rationals.
\<close>

datatype date = Time int | InvalidDate

datatype jsval = Str string | DateObj date | Null | Undefined

datatype jstr = JString string | JNull | JAbsent

record Coordinates =
  lat :: rat
  lng :: rat

subsection \<open>Calendar arithmetic of \<open>Date\<close> (ECMAScript, section "Date objects")\<close>

definition msPerDay :: int where
  "msPerDay = 86400000"

definition dayFromYear :: "int \<Rightarrow> int" where
  "dayFromYear y =
     365 * (y - 1970) + (y - 1969) div 4 - (y - 1901) div 100 + (y - 1601) div 400"

definition leapYear :: "int \<Rightarrow> bool" where
  "leapYear y = (y mod 4 = 0 \<and> (y mod 100 \<noteq> 0 \<or> y mod 400 = 0))"

definition daysInYear :: "int \<Rightarrow> int" where
  "daysInYear y = (if leapYear y then 366 else 365)"

lemma div_step: "0 < n \<Longrightarrow> (x + 1) div n = x div n + (if (x + 1) mod n = 0 then 1 else 0)" for x n :: int
proof -
  assume n: "0 < n"
  define q where "q = x div n"
  define r where "r = x mod n"
  have x: "x = q * n + r" by (simp add: q_def r_def)
  have r: "0 \<le> r" "r < n" using n by (simp_all add: r_def)
  show ?thesis
  proof (cases "r + 1 = n")
    case True
    then have e: "x + 1 = (q + 1) * n" using x by (simp add: algebra_simps)
    have "(x + 1) div n = q + 1" unfolding e using n by simp
    moreover have "(x + 1) mod n = 0" unfolding e by simp
    ultimately show ?thesis by (simp add: q_def)
  next
    case False
    then have lt: "r + 1 < n" using r by simp
    have e: "x + 1 = (r + 1) + q * n" using x by simp
    have "(x + 1) div n = q" unfolding e using n lt r by (simp add: div_pos_pos_trivial)
    moreover have "(x + 1) mod n = r + 1" unfolding e using n lt r by (simp add: mod_pos_pos_trivial)
    ultimately show ?thesis using r by (simp add: q_def)
  qed
qed
lemma dvd_chain: "a dvd b \<Longrightarrow> y mod b = 0 \<Longrightarrow> y mod a = 0" for a b y :: int
  by (meson dvd_trans mod_eq_0_iff_dvd)

lemma dayFromYear_Suc: "dayFromYear (y + 1) = dayFromYear y + daysInYear y"
proof -
  have m4: "(y - 1968) mod 4 = y mod 4"
    using mod_mult_self1 [of y "- 492" 4] by simp
  have m100: "(y - 1900) mod 100 = y mod 100"
    using mod_mult_self1 [of y "- 19" 100] by simp
  have m400: "(y - 1600) mod 400 = y mod 400"
    using mod_mult_self1 [of y "- 4" 400] by simp
  have a: "(y + 1 - 1969) div 4 = (y - 1969) div 4 + (if y mod 4 = 0 then 1 else 0)"
    using div_step [of 4 "y - 1969"] m4 by simp
  have b: "(y + 1 - 1901) div 100 = (y - 1901) div 100 + (if y mod 100 = 0 then 1 else 0)"
    using div_step [of 100 "y - 1901"] m100 by simp
  have c: "(y + 1 - 1601) div 400 = (y - 1601) div 400 + (if y mod 400 = 0 then 1 else 0)"
    using div_step [of 400 "y - 1601"] m400 by simp
  have d: "y mod 400 = 0 \<Longrightarrow> y mod 100 = 0"
    by (rule dvd_chain [of 100 400]) simp_all
  have e: "y mod 100 = 0 \<Longrightarrow> y mod 4 = 0"
    by (rule dvd_chain [of 4 100]) simp_all
  define A where "A = (y - 1969) div 4"
  define B where "B = (y - 1901) div 100"
  define C where "C = (y - 1601) div 400"
  define p4 where "p4 = (y mod 4 = 0)"
  define p100 where "p100 = (y mod 100 = 0)"
  define p400 where "p400 = (y mod 400 = 0)"
  have lhs: "dayFromYear (y + 1) = 365 * (y + 1 - 1970) + (A + (if p4 then 1 else 0))
      - (B + (if p100 then 1 else 0)) + (C + (if p400 then 1 else 0))"
    unfolding dayFromYear_def a b c A_def B_def C_def p4_def p100_def p400_def
    by (rule refl)
  have rhs: "dayFromYear y + daysInYear y = 365 * (y - 1970) + A - B + C
      + (if p4 \<and> (\<not> p100 \<or> p400) then 366 else 365)"
    unfolding dayFromYear_def daysInYear_def leapYear_def A_def B_def C_def
      p4_def p100_def p400_def by (rule refl)
  have d': "p400 \<Longrightarrow> p100" using d by (simp add: p400_def p100_def)
  have e': "p100 \<Longrightarrow> p4" using e by (simp add: p4_def p100_def)
  show ?thesis
    unfolding lhs rhs using d' e' by (cases p4; cases p100; cases p400) simp_all
qed

text \<open>
  \<open>YearFromTime\<close> is the largest year whose first day is not after the given day.
  The search walks down from a year that is certainly not too small.
\<close>

function yearDown :: "int \<Rightarrow> int \<Rightarrow> int" where
  "yearDown y d = (if d < dayFromYear y then yearDown (y - 1) d else y)"
  by pat_completeness auto
termination
proof (relation "measure (\<lambda>(y, d). nat (dayFromYear y - d))")
  show "wf (measure (\<lambda>(y, d). nat (dayFromYear y - d)))" by simp
next
  fix y d :: int
  assume less: "d < dayFromYear y"
  have "dayFromYear y = dayFromYear (y - 1) + daysInYear (y - 1)"
    using dayFromYear_Suc [of "y - 1"] by simp
  then have "dayFromYear (y - 1) < dayFromYear y"
    by (simp add: daysInYear_def)
  with less show "((y - 1, d), (y, d)) \<in> measure (\<lambda>(y, d). nat (dayFromYear y - d))"
    by simp
qed

declare yearDown.simps [simp del]

lemma yearDown_less: "d < dayFromYear y \<Longrightarrow> yearDown y d = yearDown (y - 1) d"
  by (simp add: yearDown.simps [of y d])

lemma yearDown_stop: "dayFromYear y \<le> d \<Longrightarrow> yearDown y d = y"
  by (simp add: yearDown.simps [of y d])

definition yearFromDay :: "int \<Rightarrow> int" where
  "yearFromDay d = yearDown (1970 + (if 0 \<le> d then d div 365 else d div 366)) d"

text \<open>Days of the year before the first of month \<open>m\<close> (1 to 13), with the leap day.\<close>

definition daysBeforeMonth :: "bool \<Rightarrow> int \<Rightarrow> int" where
  "daysBeforeMonth lp m =
     (let l = (if lp then 1 else 0) in
      if m \<le> 1 then 0
      else if m = 2 then 31
      else if m = 3 then 59 + l
      else if m = 4 then 90 + l
      else if m = 5 then 120 + l
      else if m = 6 then 151 + l
      else if m = 7 then 181 + l
      else if m = 8 then 212 + l
      else if m = 9 then 243 + l
      else if m = 10 then 273 + l
      else if m = 11 then 304 + l
      else if m = 12 then 334 + l
      else 365 + l)"

definition monthFromDay :: "bool \<Rightarrow> int \<Rightarrow> int" where
  "monthFromDay lp n =
     (if n < daysBeforeMonth lp 2 then 1
      else if n < daysBeforeMonth lp 3 then 2
      else if n < daysBeforeMonth lp 4 then 3
      else if n < daysBeforeMonth lp 5 then 4
      else if n < daysBeforeMonth lp 6 then 5
      else if n < daysBeforeMonth lp 7 then 6
      else if n < daysBeforeMonth lp 8 then 7
      else if n < daysBeforeMonth lp 9 then 8
      else if n < daysBeforeMonth lp 10 then 9
      else if n < daysBeforeMonth lp 11 then 10
      else if n < daysBeforeMonth lp 12 then 11
      else 12)"

subsection \<open>Decimal digits\<close>

definition digitChar :: "nat \<Rightarrow> char" where
  "digitChar n = ''0123456789'' ! (n mod 10)"

definition isDigit :: "char \<Rightarrow> bool" where
  "isDigit c = (c \<in> set ''0123456789'')"

definition digitVal :: "char \<Rightarrow> nat" where
  "digitVal c = length (takeWhile (\<lambda>d. d \<noteq> c) ''0123456789'')"

fun pad :: "nat \<Rightarrow> nat \<Rightarrow> string" where
  "pad 0 k = []"
| "pad (Suc n) k = pad n (k div 10) @ [digitChar k]"

fun numOfRev :: "string \<Rightarrow> nat" where
  "numOfRev [] = 0"
| "numOfRev (c # cs) = digitVal c + 10 * numOfRev cs"

definition numOf :: "string \<Rightarrow> nat option" where
  "numOf s = (if list_all isDigit s then Some (numOfRev (rev s)) else None)"

text \<open>\<open>String(n)\<close> for a non-negative integer: decimal, no leading zeros.\<close>

function showNat :: "nat \<Rightarrow> string" where
  "showNat n = (if n < 10 then [digitChar n] else showNat (n div 10) @ [digitChar n])"
  by pat_completeness auto
termination
  by (relation "measure id") auto

declare showNat.simps [simp del]

lemma showNat_digit: "n < 10 \<Longrightarrow> showNat n = [digitChar n]"
  by (simp add: showNat.simps [of n])

lemma showNat_more: "10 \<le> n \<Longrightarrow> showNat n = showNat (n div 10) @ [digitChar n]"
  by (simp add: showNat.simps [of n])

definition showInt :: "int \<Rightarrow> string" where
  "showInt i = (if i < 0 then CHR ''-'' # showNat (nat (- i)) else showNat (nat i))"

subsection \<open>\<open>Date.prototype.toISOString\<close> and \<open>new Date(string)\<close>\<close>

definition toISOString :: "int \<Rightarrow> string" where
  "toISOString t =
     (let d = t div msPerDay;
          r = nat (t mod msPerDay);
          y = yearFromDay d;
          n = d - dayFromYear y;
          m = monthFromDay (leapYear y) n;
          dom = n - daysBeforeMonth (leapYear y) m + 1;
          year = (if 0 \<le> y \<and> y \<le> 9999 then pad 4 (nat y)
                  else (if y < 0 then CHR ''-'' else CHR ''+'') # pad 6 (nat \<bar>y\<bar>))
      in year @ ''-'' @ pad 2 (nat m) @ ''-'' @ pad 2 (nat dom) @ ''T''
           @ pad 2 (r div 3600000) @ '':'' @ pad 2 (r div 60000 mod 60) @ '':''
           @ pad 2 (r div 1000 mod 60) @ ''.'' @ pad 3 (r mod 1000) @ ''Z'')"

text \<open>
  The time values \<open>toISOString\<close> prints with a four-digit year: from
  0000-01-01T00:00:00.000Z to 9999-12-31T23:59:59.999Z.
\<close>

definition isoYearRange :: "int \<Rightarrow> bool" where
  "isoYearRange t = (- 62167219200000 \<le> t \<and> t < 253402300800000)"

text \<open>
  \<open>MakeTime\<close>/\<open>MakeDay\<close>/\<open>MakeDate\<close> on fields read from a date-time string; a field out
  of range makes the Date invalid. Hour 24 is accepted only as \<open>24:00:00.000\<close>. A day
  past the end of its month is rejected; a host that carries it over into the next
  month prints another string for it, so such a text does not survive a read
  followed by a write there either.
\<close>

definition makeDate :: "nat \<Rightarrow> nat \<Rightarrow> nat \<Rightarrow> nat \<Rightarrow> nat \<Rightarrow> nat \<Rightarrow> nat \<Rightarrow> date" where
  "makeDate y m d h mi s ms =
     (let lp = leapYear (int y) in
      if 1 \<le> m \<and> m \<le> 12 \<and> 1 \<le> d
         \<and> int d \<le> daysBeforeMonth lp (int m + 1) - daysBeforeMonth lp (int m)
         \<and> (h \<le> 23 \<or> (h = 24 \<and> mi = 0 \<and> s = 0 \<and> ms = 0)) \<and> mi \<le> 59 \<and> s \<le> 59
      then Time ((dayFromYear (int y) + daysBeforeMonth lp (int m) + int d - 1) * msPerDay
                 + int h * 3600000 + int mi * 60000 + int s * 1000 + int ms)
      else InvalidDate)"

definition field :: "nat \<Rightarrow> nat \<Rightarrow> string \<Rightarrow> nat option" where
  "field i n s = numOf (take n (drop i s))"

text \<open>
  \<open>new Date(value)\<close> for a string that starts with a calendar date and \<open>T\<close>. The three
  forms of the ECMAScript date-time format that carry the UTC designator \<open>Z\<close> are
  parsed: \<open>YYYY-MM-DDTHH:mm:ss.sssZ\<close>, \<open>YYYY-MM-DDTHH:mm:ssZ\<close> and \<open>YYYY-MM-DDTHH:mmZ\<close>.
  What a host makes of any other string (a local time, a numeric offset, a legacy
  format) depends on the host and its time zone; the model answers Invalid Date
  there. No such string is the output of \<open>toISOString\<close>, so none of them survives a
  read followed by a write unchanged, whatever the host answers.
\<close>

definition newDate :: "string \<Rightarrow> date" where
  "newDate s =
     (if length s = 24 \<and> s ! 4 = CHR ''-'' \<and> s ! 7 = CHR ''-'' \<and> s ! 10 = CHR ''T''
         \<and> s ! 13 = CHR '':'' \<and> s ! 16 = CHR '':'' \<and> s ! 19 = CHR ''.'' \<and> s ! 23 = CHR ''Z''
      then (case (field 0 4 s, field 5 2 s, field 8 2 s, field 11 2 s, field 14 2 s,
                  field 17 2 s, field 20 3 s) of
              (Some y, Some m, Some d, Some h, Some mi, Some sec, Some ms) \<Rightarrow>
                makeDate y m d h mi sec ms
            | _ \<Rightarrow> InvalidDate)
      else if length s = 20 \<and> s ! 4 = CHR ''-'' \<and> s ! 7 = CHR ''-'' \<and> s ! 10 = CHR ''T''
         \<and> s ! 13 = CHR '':'' \<and> s ! 16 = CHR '':'' \<and> s ! 19 = CHR ''Z''
      then (case (field 0 4 s, field 5 2 s, field 8 2 s, field 11 2 s, field 14 2 s,
                  field 17 2 s) of
              (Some y, Some m, Some d, Some h, Some mi, Some sec) \<Rightarrow>
                makeDate y m d h mi sec 0
            | _ \<Rightarrow> InvalidDate)
      else if length s = 17 \<and> s ! 4 = CHR ''-'' \<and> s ! 7 = CHR ''-'' \<and> s ! 10 = CHR ''T''
         \<and> s ! 13 = CHR '':'' \<and> s ! 16 = CHR ''Z''
      then (case (field 0 4 s, field 5 2 s, field 8 2 s, field 11 2 s, field 14 2 s) of
              (Some y, Some m, Some d, Some h, Some mi) \<Rightarrow> makeDate y m d h mi 0 0
            | _ \<Rightarrow> InvalidDate)
      else InvalidDate)"


subsection \<open>Strings: the library calls the sources use\<close>

text \<open>White space and line terminators below U+0100, as \<open>String.prototype.trim\<close> strips them.\<close>

definition isSpace :: "char \<Rightarrow> bool" where
  "isSpace c = (c \<in> {CHR 0x09, CHR 0x0A, CHR 0x0B, CHR 0x0C, CHR 0x0D, CHR 0x20, CHR 0xA0})"

definition trim :: "string \<Rightarrow> string" where
  "trim s = rev (dropWhile isSpace (rev (dropWhile isSpace s)))"

fun replaceFirst :: "string \<Rightarrow> string \<Rightarrow> string \<Rightarrow> string" where
  "replaceFirst pat rep [] = (if pat = [] then rep else [])"
| "replaceFirst pat rep (c # cs) =
     (if prefix pat (c # cs) then rep @ drop (length pat) (c # cs)
      else c # replaceFirst pat rep cs)"

fun includesStr :: "string \<Rightarrow> string \<Rightarrow> bool" where
  "includesStr [] sub = (sub = [])"
| "includesStr (c # cs) sub = (prefix sub (c # cs) \<or> includesStr cs sub)"

definition lowerChar :: "char \<Rightarrow> char" where
  "lowerChar c =
     (case map_of (zip ''ABCDEFGHIJKLMNOPQRSTUVWXYZ'' ''abcdefghijklmnopqrstuvwxyz'') c of
        Some l \<Rightarrow> l
      | None \<Rightarrow> c)"

definition toLowerCase :: "string \<Rightarrow> string" where
  "toLowerCase s = map lowerChar s"

text \<open>\<open>Array.prototype.findIndex\<close>: the first index whose element passes, or -1.\<close>

primrec findIndex :: "('a \<Rightarrow> bool) \<Rightarrow> 'a list \<Rightarrow> int" where
  "findIndex P [] = - 1"
| "findIndex P (x # xs) =
     (if P x then 0 else (let r = findIndex P xs in if r = - 1 then - 1 else r + 1))"

text \<open>\<open>xs.filter((item, index, self) => p(item, index, self))\<close>.\<close>

definition filterIndexed :: "('a \<Rightarrow> nat \<Rightarrow> 'a list \<Rightarrow> bool) \<Rightarrow> 'a list \<Rightarrow> 'a list" where
  "filterIndexed p xs = map snd (filter (\<lambda>(i, x). p x i xs) (enumerate 0 xs))"

section \<open>The data model (\<open>types.ts\<close>)\<close>

text \<open>
  The interfaces say \<open>string\<close> and \<open>Date\<close>; at run time a field read back through the
  reviver below can hold either, so the string-typed fields are polymorphic: \<^typ>\<open>jsval\<close>
  in memory, \<^typ>\<open>jstr\<close> inside the stored JSON text.
\<close>

record 'v UserReport =
  report_id :: 'v
  report_type :: 'v
  description :: 'v
  report_timestamp :: 'v
  coordinates :: Coordinates
  verified :: bool

record 'v EmergencyResource =
  resource_id :: 'v
  resource_name :: 'v
  resource_type :: 'v
  location :: Coordinates
  status :: 'v

record 'v Alert =
  alert_id :: 'v
  message :: 'v
  level :: 'v
  alert_timestamp :: 'v

record 'v NewsItem =
  news_id :: 'v
  title :: 'v
  summary :: 'v
  source :: 'v
  news_timestamp :: 'v
  imageUrl :: 'v
  url :: 'v

record 'v Contact =
  contact_id :: 'v
  contact_name :: 'v
  relation :: 'v
  phone :: 'v
  email :: 'v

section \<open>The local store (\<open>services/storage.ts\<close>)\<close>

subsection \<open>\<open>JSON.stringify\<close>, \<open>JSON.parse\<close> and the reviver\<close>

text \<open>
  A storage slot holds a JSON text; the model keeps the tree the text denotes (an
  array of records), so \<open>JSON.parse\<close> without a reviver and \<open>JSON.stringify\<close> are
  field-wise conversions. \<open>JSON.stringify\<close> calls \<open>Date.prototype.toJSON\<close> on a Date:
  the ISO string of a valid Date, \<open>null\<close> for an Invalid Date; it leaves out a property
  whose value is \<open>undefined\<close>.
\<close>

definition stringifyValue :: "jsval \<Rightarrow> jstr" where
  "stringifyValue v =
     (case v of
        Str s \<Rightarrow> JString s
      | DateObj (Time t) \<Rightarrow> JString (toISOString t)
      | DateObj InvalidDate \<Rightarrow> JNull
      | Null \<Rightarrow> JNull
      | Undefined \<Rightarrow> JAbsent)"

definition parseValue :: "jstr \<Rightarrow> jsval" where
  "parseValue v = (case v of JString s \<Rightarrow> Str s | JNull \<Rightarrow> Null | JAbsent \<Rightarrow> Undefined)"

text \<open>The regular expression \<open>/^\d{4}-\d{2}-\d{2}T/\<close>.\<close>

definition dateShaped :: "string \<Rightarrow> bool" where
  "dateShaped s =
     (11 \<le> length s \<and> list_all isDigit (take 4 s) \<and> s ! 4 = CHR ''-''
      \<and> list_all isDigit (take 2 (drop 5 s)) \<and> s ! 7 = CHR ''-''
      \<and> list_all isDigit (take 2 (drop 8 s)) \<and> s ! 10 = CHR ''T'')"

text \<open>
  \<open>dateReviver(key, value)\<close>: the key is not looked at; every string value of the
  date shape becomes a Date. The reviver is not called for an absent property.
\<close>

definition dateReviver :: "string \<Rightarrow> jstr \<Rightarrow> jsval" where
  "dateReviver key v =
     (case v of
        JString s \<Rightarrow> if dateShaped s then DateObj (newDate s) else Str s
      | JNull \<Rightarrow> Null
      | JAbsent \<Rightarrow> Undefined)"

definition stringifyReport :: "jsval UserReport \<Rightarrow> jstr UserReport" where
  "stringifyReport r =
     \<lparr>report_id = stringifyValue (report_id r), report_type = stringifyValue (report_type r),
      description = stringifyValue (description r),
      report_timestamp = stringifyValue (report_timestamp r),
      coordinates = coordinates r, verified = verified r\<rparr>"

definition reviveReport :: "jstr UserReport \<Rightarrow> jsval UserReport" where
  "reviveReport r =
     \<lparr>report_id = dateReviver ''id'' (report_id r),
      report_type = dateReviver ''type'' (report_type r),
      description = dateReviver ''description'' (description r),
      report_timestamp = dateReviver ''timestamp'' (report_timestamp r),
      coordinates = coordinates r, verified = verified r\<rparr>"

definition stringifyResource :: "jsval EmergencyResource \<Rightarrow> jstr EmergencyResource" where
  "stringifyResource r =
     \<lparr>resource_id = stringifyValue (resource_id r),
      resource_name = stringifyValue (resource_name r),
      resource_type = stringifyValue (resource_type r),
      location = location r, status = stringifyValue (status r)\<rparr>"

definition parseResource :: "jstr EmergencyResource \<Rightarrow> jsval EmergencyResource" where
  "parseResource r =
     \<lparr>resource_id = parseValue (resource_id r), resource_name = parseValue (resource_name r),
      resource_type = parseValue (resource_type r),
      location = location r, status = parseValue (status r)\<rparr>"

definition stringifyAlert :: "jsval Alert \<Rightarrow> jstr Alert" where
  "stringifyAlert a =
     \<lparr>alert_id = stringifyValue (alert_id a), message = stringifyValue (message a),
      level = stringifyValue (level a), alert_timestamp = stringifyValue (alert_timestamp a)\<rparr>"

definition reviveAlert :: "jstr Alert \<Rightarrow> jsval Alert" where
  "reviveAlert a =
     \<lparr>alert_id = dateReviver ''id'' (alert_id a), message = dateReviver ''message'' (message a),
      level = dateReviver ''level'' (level a),
      alert_timestamp = dateReviver ''timestamp'' (alert_timestamp a)\<rparr>"

definition stringifyNews :: "jsval NewsItem \<Rightarrow> jstr NewsItem" where
  "stringifyNews n =
     \<lparr>news_id = stringifyValue (news_id n), title = stringifyValue (title n),
      summary = stringifyValue (summary n), source = stringifyValue (source n),
      news_timestamp = stringifyValue (news_timestamp n),
      imageUrl = stringifyValue (imageUrl n), url = stringifyValue (url n)\<rparr>"

definition reviveNews :: "jstr NewsItem \<Rightarrow> jsval NewsItem" where
  "reviveNews n =
     \<lparr>news_id = dateReviver ''id'' (news_id n), title = dateReviver ''title'' (title n),
      summary = dateReviver ''summary'' (summary n), source = dateReviver ''source'' (source n),
      news_timestamp = dateReviver ''timestamp'' (news_timestamp n),
      imageUrl = dateReviver ''imageUrl'' (imageUrl n), url = dateReviver ''url'' (url n)\<rparr>"

definition stringifyContact :: "jsval Contact \<Rightarrow> jstr Contact" where
  "stringifyContact c =
     \<lparr>contact_id = stringifyValue (contact_id c), contact_name = stringifyValue (contact_name c),
      relation = stringifyValue (relation c), phone = stringifyValue (phone c),
      email = stringifyValue (email c)\<rparr>"

definition parseContact :: "jstr Contact \<Rightarrow> jsval Contact" where
  "parseContact c =
     \<lparr>contact_id = parseValue (contact_id c), contact_name = parseValue (contact_name c),
      relation = parseValue (relation c), phone = parseValue (phone c),
      email = parseValue (email c)\<rparr>"


section \<open>The host: effects, state and environment\<close>

subsection \<open>What the AI gateway sends and receives (\<open>services/geminiService.ts\<close>)\<close>

record Args =
  arg_action :: "string option"
  arg_route :: "string option"
  arg_alertActive :: "bool option"
  arg_simulationCommand :: "string option"
  arg_intensityValue :: "rat option"
  arg_mapCommand :: "string option"
  arg_type :: "string option"
  arg_description :: "string option"

record FunctionCall =
  call_name :: string
  call_args :: Args

record WebRef =
  uri :: "string option"
  web_title :: "string option"

record Chunk =
  web :: "WebRef option"

record GroundingMetadata =
  groundingChunks :: "Chunk list option"

text \<open>
  The part of a service response the sources read: \<open>response.text\<close>,
  \<open>result.functionCalls\<close> and \<open>candidates?.[0]?.groundingMetadata\<close>.
\<close>

record Response =
  resp_text :: "string option"
  functionCalls :: "FunctionCall list option"
  groundingMetadata :: "GroundingMetadata option"

record ChatResponse =
  chat_text :: string
  functionCall :: "FunctionCall option"
  chat_grounding :: "GroundingMetadata option"

record PredictionResult =
  disasterType :: string
  confidence :: rat
  riskLevel :: string
  prediction_summary :: string
  immediateActions :: "string list"
  radiusKm :: rat
  peopleAffected :: rat
  infrastructureDamage :: string

text \<open>The four requests the gateway makes, with the data that varies between calls.\<close>

datatype Request =
    AnalyzeImage string
  | GeneratePlan string
  | SendMessage "(string \<times> string) list" string "Coordinates option"
  | NewsSearch

subsection \<open>Effects\<close>

datatype EventDetail =
    NoDetail
  | SimDetail "string option" "rat option"
  | MapDetail "string option"

datatype Callback = NavigateTo string | SetIsGuiding bool

datatype Effect =
    DispatchEvent string EventDetail
  | ConsoleError string
  | NetworkCall Request
  | Navigate string
  | SpeechCancel
  | Speak string
  | SetTimeout Callback nat

subsection \<open>State\<close>

record Storage =
  REPORTS :: "jstr UserReport list option"
  RESOURCES :: "jstr EmergencyResource list option"
  ALERTS :: "jstr Alert list option"
  NEWS :: "jstr NewsItem list option"
  CONTACTS :: "jstr Contact list option"

datatype Sender = User | AI

record Message =
  msg_text :: string
  sender :: Sender
  msg_grounding :: "GroundingMetadata option"

datatype SimulationType = NONE | FLOOD | FIRE | STORM

text \<open>
  One record holds everything the modelled functions read or change: \<open>localStorage\<close>
  (a slot is \<open>None\<close> while \<open>getItem\<close> answers \<open>null\<close>), the clock in milliseconds, the
  trace of effects in the order they happen (each with the clock reading at that
  moment), \<open>window.location.hash\<close>, and the state of the assistant component.
\<close>

record World =
  localStorage :: Storage
  clock :: int
  trace :: "(int \<times> Effect) list"
  hash :: string
  messages :: "Message list"
  isProcessing :: bool
  simMode :: SimulationType
  alertMode :: bool
  isGuiding :: bool
  locationRequest :: bool
  userCoords :: "Coordinates option"

text \<open>
  What the host supplies: the API credential, the answer of the remote service to a
  request (\<open>None\<close>: the call throws), the value \<open>crypto.randomUUID()\<close> returns at its
  next call, the clock reading when the modules were loaded, \<open>new URL(s).hostname\<close>
  and \<open>JSON.parse\<close> of a prediction (\<open>None\<close>: they throw), and whether the window
  has \<open>speechSynthesis\<close>.
\<close>

record Env =
  API_KEY :: "string option"
  network :: "Request \<Rightarrow> Response option"
  randomUUID :: string
  loadTime :: int
  hostname :: "string \<Rightarrow> string option"
  parsePrediction :: "string \<Rightarrow> PredictionResult option"
  speechSynthesis :: bool

definition emit :: "Effect \<Rightarrow> World \<Rightarrow> World" where
  "emit e w = w\<lparr>trace := trace w @ [(clock w, e)]\<rparr>"

text \<open>\<open>await delay(ms)\<close>, \<open>await new Promise(r => setTimeout(r, ms))\<close>: the timer fires
  \<open>ms\<close> milliseconds later.\<close>

definition delay :: "int \<Rightarrow> World \<Rightarrow> World" where
  "delay ms w = w\<lparr>clock := clock w + ms\<rparr>"

subsection \<open>The fixtures (\<open>constants.ts\<close>)\<close>

definition MOCK_RESOURCES :: "jsval EmergencyResource list" where
  "MOCK_RESOURCES =
     [\<lparr>resource_id = Str ''1'', resource_name = Str ''Central City Hospital'',
       resource_type = Str ''HOSPITAL'', location = \<lparr>lat = 34.0522, lng = - 118.2437\<rparr>,
       status = Str ''AVAILABLE''\<rparr>,
      \<lparr>resource_id = Str ''2'', resource_name = Str ''Westside Shelter (HS Gym)'',
       resource_type = Str ''SHELTER'', location = \<lparr>lat = 34.0622, lng = - 118.2537\<rparr>,
       status = Str ''AVAILABLE''\<rparr>,
      \<lparr>resource_id = Str ''3'', resource_name = Str ''Downtown Police Precinct'',
       resource_type = Str ''POLICE'', location = \<lparr>lat = 34.0422, lng = - 118.2337\<rparr>,
       status = Str ''AVAILABLE''\<rparr>]"

text \<open>The timestamps of the fixtures are taken from the clock when the module loads.\<close>

definition MOCK_REPORTS :: "int \<Rightarrow> jsval UserReport list" where
  "MOCK_REPORTS now =
     [\<lparr>report_id = Str ''r1'', report_type = Str ''FLOOD'',
       description = Str ''Water rising rapidly near the river bank.'',
       report_timestamp = DateObj (Time now),
       coordinates = \<lparr>lat = 34.055, lng = - 118.245\<rparr>, verified = True\<rparr>,
      \<lparr>report_id = Str ''r2'', report_type = Str ''FIRE'',
       description = Str ''Smoke spotted on the northern ridge.'',
       report_timestamp = DateObj (Time (now - 3600000)),
       coordinates = \<lparr>lat = 34.075, lng = - 118.265\<rparr>, verified = False\<rparr>]"

definition MOCK_ALERTS :: "int \<Rightarrow> jsval Alert list" where
  "MOCK_ALERTS now =
     [\<lparr>alert_id = Str ''a1'',
       message = Str (''FLASH FLOOD WARNING: Sector 4 levee integrity compromised. ''
                      @ ''Evacuate to high ground immediately.''),
       level = Str ''CRITICAL'', alert_timestamp = DateObj (Time now)\<rparr>,
      \<lparr>alert_id = Str ''a2'',
       message = Str (''Wildfire containment dropped to 40%. ''
                      @ ''Smoke advisory in effect for downtown.''),
       level = Str ''HIGH'', alert_timestamp = DateObj (Time (now - 1000 * 60 * 30))\<rparr>]"

definition MOCK_NEWS :: "int \<Rightarrow> jsval NewsItem list" where
  "MOCK_NEWS now =
     [\<lparr>news_id = Str ''n1'',
       title = Str ''Global Climate Summit Addresses Rising Sea Levels'',
       summary = Str (''World leaders gather to discuss emergency protocols for coastal ''
                      @ ''cities facing immediate flood risks.''),
       source = Str ''Global News Network'',
       news_timestamp = DateObj (Time (now - 1000 * 60 * 60 * 2)),
       imageUrl = Str (''https://images.unsplash.com/photo-1550989460-0adf9ea622e2''
                       @ ''?q=80&w=600&auto=format&fit=crop''),
       url = Str ''#''\<rparr>,
      \<lparr>news_id = Str ''n2'',
       title = Str ''Tech Giants Unveil New Seismic Sensors'',
       summary = Str (''A new array of AI-powered sensors promises to increase earthquake ''
                      @ ''warning times by up to 30 seconds.''),
       source = Str ''Tech Daily'',
       news_timestamp = DateObj (Time (now - 1000 * 60 * 60 * 5)),
       imageUrl = Str (''https://images.unsplash.com/photo-1451187580459-43490279c0fa''
                       @ ''?q=80&w=600&auto=format&fit=crop''),
       url = Str ''#''\<rparr>,
      \<lparr>news_id = Str ''n3'',
       title = Str ''Hurricane Season 2025 Predictions Released'',
       summary = Str (''Meteorologists predict a higher-than-average number of named ''
                      @ ''storms this year due to ocean warming.''),
       source = Str ''Weather Watch'',
       news_timestamp = DateObj (Time (now - 1000 * 60 * 60 * 12)),
       imageUrl = Str (''https://images.unsplash.com/photo-1569060368523-c9e54d6d67cf''
                       @ ''?q=80&w=600&auto=format&fit=crop''),
       url = Str ''#''\<rparr>]"

definition MOCK_CONTACTS :: "jsval Contact list" where
  "MOCK_CONTACTS =
     [\<lparr>contact_id = Str ''c1'', contact_name = Str ''Sarah Connor'', relation = Str ''Mother'',
       phone = Str ''+1 (555) 019-2834'', email = Str ''sarah@example.com''\<rparr>,
      \<lparr>contact_id = Str ''c2'', contact_name = Str ''Kyle Reese'', relation = Str ''Partner'',
       phone = Str ''+1 (555) 123-4567'', email = Str ''kyle@example.com''\<rparr>]"

subsection \<open>The API object\<close>

text \<open>\<open>api.init\<close>: a slot is written only while \<open>getItem\<close> answers nothing.\<close>

definition init :: "Env \<Rightarrow> Storage \<Rightarrow> Storage" where
  "init env st =
     (let st1 = (if REPORTS st = None
                 then st\<lparr>REPORTS := Some (map stringifyReport (MOCK_REPORTS (loadTime env)))\<rparr>
                 else st);
          st2 = (if RESOURCES st1 = None
                 then st1\<lparr>RESOURCES := Some (map stringifyResource MOCK_RESOURCES)\<rparr>
                 else st1);
          st3 = (if ALERTS st2 = None
                 then st2\<lparr>ALERTS := Some (map stringifyAlert (MOCK_ALERTS (loadTime env)))\<rparr>
                 else st2);
          st4 = (if NEWS st3 = None
                 then st3\<lparr>NEWS := Some (map stringifyNews (MOCK_NEWS (loadTime env)))\<rparr>
                 else st3)
      in if CONTACTS st4 = None
         then st4\<lparr>CONTACTS := Some (map stringifyContact MOCK_CONTACTS)\<rparr>
         else st4)"

definition getReports :: "Env \<Rightarrow> World \<Rightarrow> jsval UserReport list \<times> World" where
  "getReports env w =
     (let w1 = delay 300 w;
          w2 = w1\<lparr>localStorage := init env (localStorage w1)\<rparr>
      in (case REPORTS (localStorage w2) of
            Some raw \<Rightarrow> map reviveReport raw
          | None \<Rightarrow> [],
          w2))"

text \<open>The payload of \<open>createReport\<close>: a report without id, timestamp and verified.\<close>

record ReportPayload =
  payload_type :: jsval
  payload_description :: jsval
  payload_coordinates :: Coordinates

definition createReport :: "Env \<Rightarrow> ReportPayload \<Rightarrow> World \<Rightarrow> jsval UserReport \<times> World" where
  "createReport env report w =
     (let w1 = delay 600 w;
          (reports, w2) = getReports env w1;
          newReport = \<lparr>report_id = Str (randomUUID env), report_type = payload_type report,
                       description = payload_description report,
                       report_timestamp = DateObj (Time (clock w2)),
                       coordinates = payload_coordinates report, verified = False\<rparr>;
          reports' = reports @ [newReport];
          w3 = w2\<lparr>localStorage := (localStorage w2)\<lparr>REPORTS := Some (map stringifyReport reports')\<rparr>\<rparr>;
          w4 = emit (DispatchEvent ''db-reports-updated'' NoDetail) w3
      in (newReport, w4))"

definition getResources :: "Env \<Rightarrow> World \<Rightarrow> jsval EmergencyResource list \<times> World" where
  "getResources env w =
     (let w1 = delay 200 w;
          w2 = w1\<lparr>localStorage := init env (localStorage w1)\<rparr>
      in (case RESOURCES (localStorage w2) of
            Some raw \<Rightarrow> map parseResource raw
          | None \<Rightarrow> [],
          w2))"

definition getAlerts :: "Env \<Rightarrow> World \<Rightarrow> jsval Alert list \<times> World" where
  "getAlerts env w =
     (let w1 = delay 200 w;
          w2 = w1\<lparr>localStorage := init env (localStorage w1)\<rparr>
      in (case ALERTS (localStorage w2) of
            Some raw \<Rightarrow> map reviveAlert raw
          | None \<Rightarrow> [],
          w2))"

definition getNews :: "Env \<Rightarrow> World \<Rightarrow> jsval NewsItem list \<times> World" where
  "getNews env w =
     (let w1 = delay 250 w;
          w2 = w1\<lparr>localStorage := init env (localStorage w1)\<rparr>
      in (case NEWS (localStorage w2) of
            Some raw \<Rightarrow> map reviveNews raw
          | None \<Rightarrow> [],
          w2))"

text \<open>\<open>r.id === reportId\<close> holds only for a string: a Date is never strictly equal to one.\<close>

definition verifyReport :: "Env \<Rightarrow> string \<Rightarrow> World \<Rightarrow> World" where
  "verifyReport env reportId w =
     (let w1 = delay 400 w;
          (reports, w2) = getReports env w1;
          updatedReports =
            map (\<lambda>r. if report_id r = Str reportId then r\<lparr>verified := True\<rparr> else r) reports;
          w3 = w2\<lparr>localStorage :=
                    (localStorage w2)\<lparr>REPORTS := Some (map stringifyReport updatedReports)\<rparr>\<rparr>
      in emit (DispatchEvent ''db-reports-updated'' NoDetail) w3)"

definition getContacts :: "Env \<Rightarrow> World \<Rightarrow> jsval Contact list \<times> World" where
  "getContacts env w =
     (let w1 = delay 200 w;
          w2 = w1\<lparr>localStorage := init env (localStorage w1)\<rparr>
      in (case CONTACTS (localStorage w2) of
            Some raw \<Rightarrow> map parseContact raw
          | None \<Rightarrow> [],
          w2))"

record ContactPayload =
  new_name :: jsval
  new_relation :: jsval
  new_phone :: jsval
  new_email :: jsval

definition addContact :: "Env \<Rightarrow> ContactPayload \<Rightarrow> World \<Rightarrow> jsval Contact \<times> World" where
  "addContact env contact w =
     (let w1 = delay 400 w;
          (contacts, w2) = getContacts env w1;
          newContact = \<lparr>contact_id = Str (randomUUID env), contact_name = new_name contact,
                        relation = new_relation contact, phone = new_phone contact,
                        email = new_email contact\<rparr>;
          contacts' = contacts @ [newContact];
          w3 = w2\<lparr>localStorage :=
                    (localStorage w2)\<lparr>CONTACTS := Some (map stringifyContact contacts')\<rparr>\<rparr>
      in (newContact, w3))"

definition deleteContact :: "Env \<Rightarrow> string \<Rightarrow> World \<Rightarrow> World" where
  "deleteContact env cid w =
     (let w1 = delay 300 w;
          (contacts, w2) = getContacts env w1;
          filtered = filter (\<lambda>c. contact_id c \<noteq> Str cid) contacts
      in w2\<lparr>localStorage :=
              (localStorage w2)\<lparr>CONTACTS := Some (map stringifyContact filtered)\<rparr>\<rparr>)"

subsection \<open>Notions used to state what the store does\<close>

text \<open>
  The collection a read finds: the stored array, or the fixtures when nothing is
  stored under the key.
\<close>

definition seededReports :: "Env \<Rightarrow> Storage \<Rightarrow> jstr UserReport list" where
  "seededReports env st =
     (case REPORTS st of
        Some raw \<Rightarrow> raw
      | None \<Rightarrow> map stringifyReport (MOCK_REPORTS (loadTime env)))"

definition seededContacts :: "Storage \<Rightarrow> jstr Contact list" where
  "seededContacts st =
     (case CONTACTS st of
        Some raw \<Rightarrow> raw
      | None \<Rightarrow> map stringifyContact MOCK_CONTACTS)"

text \<open>
  What a read through the reviver followed by a write leaves of a stored value and of
  a stored report. A value is stable when that is the value itself.
\<close>

definition rewriteValue :: "jstr \<Rightarrow> jstr" where
  "rewriteValue v = stringifyValue (dateReviver [] v)"

definition rewriteReport :: "jstr UserReport \<Rightarrow> jstr UserReport" where
  "rewriteReport r = stringifyReport (reviveReport r)"

definition stableReport :: "jstr UserReport \<Rightarrow> bool" where
  "stableReport r = (rewriteReport r = r)"



section \<open>The AI gateway (\<open>services/geminiService.ts\<close>)\<close>

text \<open>\<open>initializeGemini\<close>: no client without a (non-empty) API key.\<close>

definition initializeGemini :: "Env \<Rightarrow> World \<Rightarrow> string option \<times> World" where
  "initializeGemini env w =
     (case API_KEY env of
        Some apiKey \<Rightarrow>
          if truthy apiKey then (Some apiKey, w)
          else (None, emit (ConsoleError ''API_KEY is missing from environment variables'') w)
      | None \<Rightarrow> (None, emit (ConsoleError ''API_KEY is missing from environment variables'') w))"

definition analyzeDisasterImage :: "Env \<Rightarrow> string \<Rightarrow> World \<Rightarrow> PredictionResult option \<times> World" where
  "analyzeDisasterImage env base64Image w =
     (case initializeGemini env w of
        (None, w1) \<Rightarrow> (None, w1)
      | (Some ai, w1) \<Rightarrow>
          (let w2 = emit (NetworkCall (AnalyzeImage base64Image)) w1 in
           case network env (AnalyzeImage base64Image) of
             None \<Rightarrow> (None, emit (ConsoleError ''Error analyzing image with Gemini:'') w2)
           | Some response \<Rightarrow>
               (case resp_text response of
                  Some t \<Rightarrow>
                    if truthy t
                    then (case parsePrediction env t of
                            Some p \<Rightarrow> (Some p, w2)
                          | None \<Rightarrow>
                              (None, emit (ConsoleError ''Error analyzing image with Gemini:'') w2))
                    else (None, w2)
                | None \<Rightarrow> (None, w2))))"

definition planPrompt :: "string \<Rightarrow> string" where
  "planPrompt context =
     ''Generate a concise, step-by-step emergency evacuation and resource plan ''
     @ ''for the following situation: '' @ context
     @ ''. Include specific resource allocation advice.''"

definition generateEmergencyPlanText :: "Env \<Rightarrow> string \<Rightarrow> World \<Rightarrow> string \<times> World" where
  "generateEmergencyPlanText env context w =
     (case initializeGemini env w of
        (None, w1) \<Rightarrow> (''AI Service Unavailable'', w1)
      | (Some ai, w1) \<Rightarrow>
          (let w2 = emit (NetworkCall (GeneratePlan (planPrompt context))) w1 in
           case network env (GeneratePlan (planPrompt context)) of
             None \<Rightarrow> (''Error generating plan.'', emit (ConsoleError []) w2)
           | Some response \<Rightarrow>
               (case resp_text response of
                  Some t \<Rightarrow> (if truthy t then t else ''Could not generate plan.'', w2)
                | None \<Rightarrow> (''Could not generate plan.'', w2))))"

definition chatWithAssistant ::
  "Env \<Rightarrow> (string \<times> string) list \<Rightarrow> string \<Rightarrow> Coordinates option \<Rightarrow> World
   \<Rightarrow> ChatResponse \<times> World" where
  "chatWithAssistant env history newMessage userLocation w =
     (case initializeGemini env w of
        (None, w1) \<Rightarrow>
          (\<lparr>chat_text = ''System offline.'', functionCall = None, chat_grounding = None\<rparr>, w1)
      | (Some ai, w1) \<Rightarrow>
          (let w2 = emit (NetworkCall (SendMessage history newMessage userLocation)) w1 in
           case network env (SendMessage history newMessage userLocation) of
             None \<Rightarrow>
               (\<lparr>chat_text = ''Communication error.'', functionCall = None,
                 chat_grounding = None\<rparr>,
                emit (ConsoleError []) w2)
           | Some result \<Rightarrow>
               (\<lparr>chat_text = (case resp_text result of Some t \<Rightarrow> t | None \<Rightarrow> []),
                 functionCall = (case functionCalls result of
                                   Some (call # rest) \<Rightarrow> Some call
                                 | _ \<Rightarrow> None),
                 chat_grounding = groundingMetadata result\<rparr>,
                w2)))"

subsection \<open>\<open>fetchRealTimeNews\<close>\<close>

text \<open>\<open>chunk.web?.uri && chunk.web?.title\<close>\<close>

definition usableChunk :: "Chunk \<Rightarrow> bool" where
  "usableChunk chunk =
     (case web chunk of
        None \<Rightarrow> False
      | Some wr \<Rightarrow>
          (case (uri wr, web_title wr) of
             (Some u, Some t) \<Rightarrow> truthy u \<and> truthy t
           | _ \<Rightarrow> False))"

text \<open>The mapping of one chunk that passed the filter; \<open>None\<close> when \<open>new URL\<close> throws.\<close>

definition newsItemOf :: "Env \<Rightarrow> int \<Rightarrow> nat \<times> Chunk \<Rightarrow> jsval NewsItem option" where
  "newsItemOf env now ic =
     (case web (snd ic) of
        None \<Rightarrow> None
      | Some wr \<Rightarrow>
          (case (uri wr, web_title wr) of
             (Some u, Some t) \<Rightarrow>
               (case hostname env u of
                  None \<Rightarrow> None
                | Some h \<Rightarrow>
                    Some \<lparr>news_id = Str (''live-'' @ showNat (fst ic) @ ''-'' @ showInt now),
                          title = Str t,
                          summary = Str ''Live report retrieved from global monitoring network.'',
                          source = Str (replaceFirst ''www.'' [] h),
                          news_timestamp = DateObj (Time now),
                          imageUrl = Undefined,
                          url = Str u\<rparr>)
           | _ \<Rightarrow> None))"

definition newsItems :: "Env \<Rightarrow> int \<Rightarrow> Chunk list \<Rightarrow> jsval NewsItem list option" where
  "newsItems env now chunks =
     those (map (newsItemOf env now) (enumerate 0 (filter usableChunk chunks)))"

text \<open>The step commented \<open>Deduplicate\<close> in the source.\<close>

definition unique :: "jsval NewsItem list \<Rightarrow> jsval NewsItem list" where
  "unique items =
     filterIndexed (\<lambda>item index self. int index = findIndex (\<lambda>t. url t = url item) self) items"

definition fetchRealTimeNews :: "Env \<Rightarrow> World \<Rightarrow> jsval NewsItem list \<times> World" where
  "fetchRealTimeNews env w =
     (case initializeGemini env w of
        (None, w1) \<Rightarrow> ([], w1)
      | (Some ai, w1) \<Rightarrow>
          (let w2 = emit (NetworkCall NewsSearch) w1 in
           case network env NewsSearch of
             None \<Rightarrow> ([], emit (ConsoleError ''News fetch error:'') w2)
           | Some response \<Rightarrow>
               (case groundingMetadata response of
                  None \<Rightarrow> ([], w2)
                | Some gm \<Rightarrow>
                    (case groundingChunks gm of
                       None \<Rightarrow> ([], w2)
                     | Some chunks \<Rightarrow>
                         (case newsItems env (clock w2) chunks of
                            None \<Rightarrow> ([], emit (ConsoleError ''News fetch error:'') w2)
                          | Some items \<Rightarrow> (take 10 (unique items), w2))))))"

text \<open>The credential is absent when \<open>process.env.API_KEY\<close> is undefined or empty.\<close>

definition credentialAbsent :: "Env \<Rightarrow> bool" where
  "credentialAbsent env = (case API_KEY env of None \<Rightarrow> True | Some k \<Rightarrow> \<not> truthy k)"

text \<open>The only effect of a call without credential: the line on the console.\<close>

definition missingKey :: "World \<Rightarrow> World" where
  "missingKey w = emit (ConsoleError ''API_KEY is missing from environment variables'') w"

section \<open>The command dispatcher (\<open>handleSend\<close> of the assistant component)\<close>

text \<open>
  \<open>speak\<close>: without \<open>speechSynthesis\<close> in the window nothing happens; otherwise the
  speech in progress is cancelled and a non-empty text is spoken.
\<close>

definition speak :: "Env \<Rightarrow> string \<Rightarrow> World \<Rightarrow> World" where
  "speak env txt w =
     (if speechSynthesis env
      then (let w1 = emit SpeechCancel w in if \<not> truthy txt then w1 else emit (Speak txt) w1)
      else w)"

definition triggerGuiding :: "World \<Rightarrow> World" where
  "triggerGuiding w = emit (SetTimeout (SetIsGuiding False) 2500) (w\<lparr>isGuiding := True\<rparr>)"

text \<open>\<open>navigate(route)\<close> of the hash router: the route becomes the location hash.\<close>

definition navigate :: "string \<Rightarrow> World \<Rightarrow> World" where
  "navigate r w = (emit (Navigate r) w)\<lparr>hash := ''#'' @ r\<rparr>"

definition addMessage :: "Message \<Rightarrow> World \<Rightarrow> World" where
  "addMessage m w = w\<lparr>messages := messages w @ [m]\<rparr>"

definition validRoutes :: "string list" where
  "validRoutes = [''/'', ''/map'', ''/prediction'', ''/simulation'', ''/emergency-plan'',
                  ''/ar-view'', ''/settings'', ''/contacts'']"

text \<open>A template literal prints a missing value as \<open>undefined\<close>.\<close>

definition showOpt :: "string option \<Rightarrow> string" where
  "showOpt v = (case v of Some s \<Rightarrow> s | None \<Rightarrow> ''undefined'')"

text \<open>
  The five blocks under \<open>name === 'controlApp'\<close>, in source order. Each takes and
  returns the feedback text and the state.
\<close>

definition navigateBlock :: "Args \<Rightarrow> string \<times> World \<Rightarrow> string \<times> World" where
  "navigateBlock args fw =
     (case fw of (feedbackText, w) \<Rightarrow>
        (case arg_route args of
           Some r \<Rightarrow>
             if arg_action args = Some ''NAVIGATE'' \<and> truthy r
             then (let targetRoute = trim r in
                   if targetRoute \<in> set validRoutes
                   then (let w1 = navigate targetRoute (triggerGuiding w);
                             shown = replaceFirst ''/'' [] targetRoute
                         in (if \<not> truthy feedbackText
                             then ''Routing to '' @ (if truthy shown then shown else ''Dashboard'')
                                  @ ''.''
                             else feedbackText, w1))
                   else (feedbackText, w))
             else (feedbackText, w)
         | None \<Rightarrow> (feedbackText, w)))"

definition alertBlock :: "Args \<Rightarrow> string \<times> World \<Rightarrow> string \<times> World" where
  "alertBlock args fw =
     (case fw of (feedbackText, w) \<Rightarrow>
        if arg_action args = Some ''SET_ALERT_MODE''
        then (let isActive = (arg_alertActive args = Some True)
              in (if \<not> truthy feedbackText
                  then (if isActive then ''Red Alert activated.'' else ''Alerts cancelled.'')
                  else feedbackText, w\<lparr>alertMode := isActive\<rparr>))
        else (feedbackText, w))"

definition simulationBlock :: "Args \<Rightarrow> string \<times> World \<Rightarrow> string \<times> World" where
  "simulationBlock args fw =
     (case fw of (feedbackText, w) \<Rightarrow>
        if arg_action args = Some ''SIMULATION_CONTROL''
        then (let w1 = (if arg_simulationCommand args = Some ''START''
                           \<and> hash w \<noteq> ''#/simulation''
                        then delay 500 (navigate ''/simulation'' w) else w);
                  w2 = emit (DispatchEvent ''aiden-sim''
                               (SimDetail (arg_simulationCommand args) (arg_intensityValue args))) w1
              in (if \<not> truthy feedbackText
                  then ''Simulation protocol '' @ showOpt (arg_simulationCommand args)
                       @ '' executed.''
                  else feedbackText, w2))
        else (feedbackText, w))"

definition mapBlock :: "Args \<Rightarrow> string \<times> World \<Rightarrow> string \<times> World" where
  "mapBlock args fw =
     (case fw of (feedbackText, w) \<Rightarrow>
        if arg_action args = Some ''MAP_CONTROL''
        then (let w1 = (if hash w \<noteq> ''#/map'' then delay 500 (navigate ''/map'' w) else w);
                  w2 = emit (DispatchEvent ''aiden-map'' (MapDetail (arg_mapCommand args))) w1
              in (if \<not> truthy feedbackText
                  then ''Map view updating: '' @ showOpt (arg_mapCommand args) @ ''.''
                  else feedbackText, w2))
        else (feedbackText, w))"

definition openReportBlock :: "Args \<Rightarrow> string \<times> World \<Rightarrow> string \<times> World" where
  "openReportBlock args fw =
     (case fw of (feedbackText, w) \<Rightarrow>
        if arg_action args = Some ''OPEN_REPORT''
        then (let w1 = (if hash w \<noteq> ''#/map'' then delay 500 (navigate ''/map'' w) else w);
                  w2 = emit (DispatchEvent ''aiden-report-ui'' NoDetail) w1
              in (if \<not> truthy feedbackText then ''Opening report interface.''
                  else feedbackText, w2))
        else (feedbackText, w))"

definition controlApp :: "Env \<Rightarrow> ChatResponse \<Rightarrow> Args \<Rightarrow> World \<Rightarrow> World" where
  "controlApp env response args w =
     (case openReportBlock args (mapBlock args (simulationBlock args (alertBlock args
              (navigateBlock args (chat_text response, w))))) of
        (feedbackText, w1) \<Rightarrow>
          if \<not> truthy (chat_text response) \<and> truthy feedbackText
          then speak env feedbackText
                 (addMessage \<lparr>msg_text = feedbackText, sender = AI, msg_grounding = None\<rparr> w1)
          else w1)"

definition getUserLocationBranch :: "Env \<Rightarrow> ChatResponse \<Rightarrow> World \<Rightarrow> World" where
  "getUserLocationBranch env response w =
     (let requestMsg =
            (if truthy (chat_text response) then chat_text response
             else ''I need to access your GPS coordinates to find accurate local information.'');
          w1 = addMessage \<lparr>msg_text = requestMsg, sender = AI, msg_grounding = None\<rparr> w;
          w2 = speak env requestMsg w1
      in w2\<lparr>locationRequest := True, isProcessing := False\<rparr>)"

definition optVal :: "string option \<Rightarrow> jsval" where
  "optVal v = (case v of Some s \<Rightarrow> Str s | None \<Rightarrow> Undefined)"

definition reportIncidentBranch :: "Env \<Rightarrow> ChatResponse \<Rightarrow> Args \<Rightarrow> World \<Rightarrow> World" where
  "reportIncidentBranch env response args w =
     (let report = \<lparr>payload_type = optVal (arg_type args),
                    payload_description = optVal (arg_description args),
                    payload_coordinates =
                      (case userCoords w of
                         Some c \<Rightarrow> c
                       | None \<Rightarrow> \<lparr>lat = 34.0522, lng = - 118.2437\<rparr>)\<rparr>;
          w1 = snd (createReport env report w);
          feedback =
            (if truthy (chat_text response) then chat_text response
             else ''Report filed: '' @ showOpt (arg_type args) @ '' - ''
                  @ showOpt (arg_description args) @ ''. Broadcasted to local network.'');
          w2 = addMessage \<lparr>msg_text = feedback, sender = AI, msg_grounding = None\<rparr> w1;
          w3 = speak env feedback w2
      in emit (SetTimeout (NavigateTo ''/map'') 3000) w3)"

text \<open>
  The history sent to the gateway: \<open>messagesRef.current\<close> (the messages before this
  call) without a leading assistant message, as role and text.
\<close>

definition historyOf :: "Message list \<Rightarrow> (string \<times> string) list" where
  "historyOf ms =
     map (\<lambda>m. (if sender m = User then ''user'' else ''model'', msg_text m))
       (filterIndexed (\<lambda>m i self. \<not> (i = 0 \<and> sender m = AI)) ms)"

definition keywordSimMode :: "string \<Rightarrow> World \<Rightarrow> World" where
  "keywordSimMode lowerMsg w =
     (let w1 = (if includesStr lowerMsg ''flood'' then w\<lparr>simMode := FLOOD\<rparr> else w);
          w2 = (if includesStr lowerMsg ''fire'' \<or> includesStr lowerMsg ''wildfire''
                then w1\<lparr>simMode := FIRE\<rparr> else w1);
          w3 = (if includesStr lowerMsg ''storm'' \<or> includesStr lowerMsg ''hurricane''
                then w2\<lparr>simMode := STORM\<rparr> else w2)
      in if includesStr lowerMsg ''stop'' \<or> includesStr lowerMsg ''clear simulation''
         then w3\<lparr>simMode := NONE\<rparr> else w3)"

text \<open>What \<open>handleSend\<close> does with the gateway's response (source lines 379 to 490).\<close>

definition dispatch :: "Env \<Rightarrow> ChatResponse \<Rightarrow> World \<Rightarrow> World" where
  "dispatch env response w =
     (let w1 = (if truthy (chat_text response)
                then speak env (chat_text response)
                       (addMessage \<lparr>msg_text = chat_text response, sender = AI,
                                    msg_grounding = chat_grounding response\<rparr> w)
                else w)
      in case functionCall response of
           None \<Rightarrow> w1\<lparr>isProcessing := False\<rparr>
         | Some fc \<Rightarrow>
             (let w2 = (if call_name fc = ''controlApp''
                        then controlApp env response (call_args fc) w1 else w1)
              in if call_name fc = ''getUserLocation''
                 then getUserLocationBranch env response w2
                 else (let w3 = (if call_name fc = ''reportIncident''
                                 then reportIncidentBranch env response (call_args fc) w2
                                 else w2)
                       in w3\<lparr>isProcessing := False\<rparr>)))"

definition handleSend :: "Env \<Rightarrow> string \<Rightarrow> World \<Rightarrow> World" where
  "handleSend env txt w =
     (if \<not> truthy (trim txt) then w
      else (let userMsg = txt;
                history = historyOf (messages w);
                w1 = (addMessage \<lparr>msg_text = userMsg, sender = User, msg_grounding = None\<rparr> w)
                       \<lparr>isProcessing := True\<rparr>;
                w2 = keywordSimMode (toLowerCase userMsg) w1;
                (response, w3) = chatWithAssistant env history userMsg (userCoords w2) w2
            in dispatch env response w3))"

subsection \<open>Notions used to state what the dispatcher does\<close>

definition userMessage :: "string \<Rightarrow> Message" where
  "userMessage txt = \<lparr>msg_text = txt, sender = User, msg_grounding = None\<rparr>"

text \<open>The effects of one call \<open>speak(txt)\<close> at clock reading \<open>t\<close>.\<close>

definition speech :: "Env \<Rightarrow> int \<Rightarrow> string \<Rightarrow> (int \<times> Effect) list" where
  "speech env t txt =
     (if speechSynthesis env
      then (t, SpeechCancel) # (if truthy txt then [(t, Speak txt)] else [])
      else [])"

text \<open>The texts spoken in a trace, in order.\<close>

fun spokenTexts :: "(int \<times> Effect) list \<Rightarrow> string list" where
  "spokenTexts [] = []"
| "spokenTexts ((t, Speak s) # rest) = s # spokenTexts rest"
| "spokenTexts (e # rest) = spokenTexts rest"

text \<open>The response \<open>handleSend\<close> gets from the gateway for the text \<open>txt\<close> in state \<open>w\<close>.\<close>

definition gatewayAnswer :: "Env \<Rightarrow> string \<Rightarrow> World \<Rightarrow> ChatResponse" where
  "gatewayAnswer env txt w =
     fst (chatWithAssistant env (historyOf (messages w)) txt (userCoords w) w)"

text \<open>
  A \<open>controlApp\<close> call is acted on when its action is one of the five the dispatcher
  knows and, for \<open>NAVIGATE\<close>, the trimmed route is on the allow-list. The
  acknowledgement is the feedback text the source synthesizes for it.
\<close>

definition recognised :: "Args \<Rightarrow> bool" where
  "recognised args =
     (if arg_action args = Some ''NAVIGATE''
      then (case arg_route args of Some r \<Rightarrow> trim r \<in> set validRoutes | None \<Rightarrow> False)
      else arg_action args \<in> {Some ''SET_ALERT_MODE'', Some ''SIMULATION_CONTROL'',
                                Some ''MAP_CONTROL'', Some ''OPEN_REPORT''})"

definition routeName :: "string \<Rightarrow> string" where
  "routeName r = (if r = ''/'' then ''Dashboard'' else drop 1 r)"

definition acknowledgement :: "Args \<Rightarrow> string" where
  "acknowledgement args =
     (if arg_action args = Some ''NAVIGATE''
      then (case arg_route args of
              Some r \<Rightarrow> ''Routing to '' @ routeName (trim r) @ ''.''
            | None \<Rightarrow> [])
      else if arg_action args = Some ''SET_ALERT_MODE''
      then (if arg_alertActive args = Some True then ''Red Alert activated.''
            else ''Alerts cancelled.'')
      else if arg_action args = Some ''SIMULATION_CONTROL''
      then ''Simulation protocol '' @ showOpt (arg_simulationCommand args) @ '' executed.''
      else if arg_action args = Some ''MAP_CONTROL''
      then ''Map view updating: '' @ showOpt (arg_mapCommand args) @ ''.''
      else if arg_action args = Some ''OPEN_REPORT'' then ''Opening report interface.''
      else [])"

text \<open>The messages a call of \<open>handleSend\<close> added.\<close>

definition newMessages :: "World \<Rightarrow> World \<Rightarrow> Message list" where
  "newMessages w w' = drop (length (messages w)) (messages w')"

section \<open>Sample hosts and states\<close>

text \<open>The state when the application starts with nothing stored, at clock reading \<open>t\<close>.\<close>

definition emptyStorage :: Storage where
  "emptyStorage = \<lparr>REPORTS = None, RESOURCES = None, ALERTS = None, NEWS = None, CONTACTS = None\<rparr>"

definition initialWorld :: "int \<Rightarrow> World" where
  "initialWorld t =
     \<lparr>localStorage = emptyStorage, clock = t, trace = [], hash = ''#/'',
      messages = [\<lparr>msg_text = ''Identity Verified. Interface initialized. Ready for command.'',
                   sender = AI, msg_grounding = None\<rparr>],
      isProcessing = False, simMode = NONE, alertMode = False, isGuiding = False,
      locationRequest = False, userCoords = None\<rparr>"

text \<open>A grounded search answer with three sources, two of them the same page.\<close>

definition sampleChunks :: "Chunk list" where
  "sampleChunks =
     [\<lparr>web = Some \<lparr>uri = Some ''https://www.a.org/quake'', web_title = Some ''Quake''\<rparr>\<rparr>,
      \<lparr>web = Some \<lparr>uri = Some ''https://b.org/flood'', web_title = Some ''Flood''\<rparr>\<rparr>,
      \<lparr>web = None\<rparr>,
      \<lparr>web = Some \<lparr>uri = Some ''https://www.a.org/quake'', web_title = Some ''Quake again''\<rparr>\<rparr>]"

definition sampleNetwork :: "Response \<Rightarrow> Request \<Rightarrow> Response option" where
  "sampleNetwork chatAnswer rq =
     (case rq of
        NewsSearch \<Rightarrow>
          Some \<lparr>resp_text = Some ''news'', functionCalls = None,
                groundingMetadata = Some \<lparr>groundingChunks = Some sampleChunks\<rparr>\<rparr>
      | SendMessage h m l \<Rightarrow> Some chatAnswer
      | _ \<Rightarrow> None)"

definition sampleHostname :: "string \<Rightarrow> string option" where
  "sampleHostname u =
     (if u = ''https://www.a.org/quake'' then Some ''www.a.org''
      else if u = ''https://b.org/flood'' then Some ''b.org'' else None)"

text \<open>A host with a credential whose service answers every chat message with
  \<open>chatAnswer\<close>, and the same host without the credential. The modules were loaded on
  2024-01-01 at 00:00 UTC.\<close>

definition onlineEnv :: "Response \<Rightarrow> Env" where
  "onlineEnv chatAnswer =
     \<lparr>API_KEY = Some ''key'', network = sampleNetwork chatAnswer,
      randomUUID = ''123e4567-e89b-42d3-a456-426614174000'', loadTime = 1704067200000,
      hostname = sampleHostname, parsePrediction = (\<lambda>s. None), speechSynthesis = True\<rparr>"

definition offlineEnv :: Env where
  "offlineEnv = (onlineEnv \<lparr>resp_text = None, functionCalls = None, groundingMetadata = None\<rparr>)
     \<lparr>API_KEY := None\<rparr>"

text \<open>The answer of the service that carries one \<open>controlApp\<close> call and a narration.\<close>

definition noArgs :: Args where
  "noArgs = \<lparr>arg_action = None, arg_route = None, arg_alertActive = None,
             arg_simulationCommand = None, arg_intensityValue = None, arg_mapCommand = None,
             arg_type = None, arg_description = None\<rparr>"

definition controlAnswer :: "string \<Rightarrow> Args \<Rightarrow> Response" where
  "controlAnswer narration args =
     \<lparr>resp_text = Some narration,
      functionCalls = Some [\<lparr>call_name = ''controlApp'', call_args = args\<rparr>],
      groundingMetadata = None\<rparr>"

text \<open>Tool calls used as examples.\<close>

definition simulationStart :: Args where
  "simulationStart = noArgs\<lparr>arg_action := Some ''SIMULATION_CONTROL'',
                              arg_simulationCommand := Some ''START''\<rparr>"

definition navigateTo :: "string \<Rightarrow> Args" where
  "navigateTo r = noArgs\<lparr>arg_action := Some ''NAVIGATE'', arg_route := Some r\<rparr>"

text \<open>The three items \<open>fetchRealTimeNews\<close> builds from \<open>sampleChunks\<close> at that instant.\<close>

definition sampleItems :: "jsval NewsItem list" where
  "sampleItems =
     [\<lparr>news_id = Str ''live-0-1704067200000'', title = Str ''Quake'',
       summary = Str ''Live report retrieved from global monitoring network.'',
       source = Str ''a.org'', news_timestamp = DateObj (Time 1704067200000),
       imageUrl = Undefined, url = Str ''https://www.a.org/quake''\<rparr>,
      \<lparr>news_id = Str ''live-1-1704067200000'', title = Str ''Flood'',
       summary = Str ''Live report retrieved from global monitoring network.'',
       source = Str ''b.org'', news_timestamp = DateObj (Time 1704067200000),
       imageUrl = Undefined, url = Str ''https://b.org/flood''\<rparr>,
      \<lparr>news_id = Str ''live-2-1704067200000'', title = Str ''Quake again'',
       summary = Str ''Live report retrieved from global monitoring network.'',
       source = Str ''a.org'', news_timestamp = DateObj (Time 1704067200000),
       imageUrl = Undefined, url = Str ''https://www.a.org/quake''\<rparr>]"

text \<open>A stored report whose description has the date shape without being an ISO
  string as \<open>toISOString\<close> writes it.\<close>

definition datedReport :: "jstr UserReport" where
  "datedReport =
     \<lparr>report_id = JString ''r1'', report_type = JString ''FLOOD'',
      description = JString ''2024-01-01T00:00:00Z'',
      report_timestamp = JString ''2024-01-01T00:00:00.000Z'',
      coordinates = \<lparr>lat = 34.055, lng = - 118.245\<rparr>, verified = False\<rparr>"

definition datedWorld :: World where
  "datedWorld = (initialWorld 1704067200000)
     \<lparr>localStorage := emptyStorage\<lparr>REPORTS := Some [datedReport]\<rparr>\<rparr>"



section \<open>Properties of the date and string functions\<close>

lemma pad_2: "pad 2 k = [digitChar (k div 10), digitChar k]"
proof -
  have "pad 2 k = pad (Suc (Suc 0)) k" by (simp only: numeral_2_eq_2)
  then show ?thesis by simp
qed

lemma pad_3: "pad 3 k = [digitChar (k div 10 div 10), digitChar (k div 10), digitChar k]"
proof -
  have "pad 3 k = pad (Suc (Suc (Suc 0))) k" by (simp only: numeral_3_eq_3)
  then show ?thesis by simp
qed

lemma pad_4:
  "pad 4 k = [digitChar (k div 10 div 10 div 10), digitChar (k div 10 div 10),
              digitChar (k div 10), digitChar k]"
proof -
  have "(4::nat) = Suc (Suc (Suc (Suc 0)))" by simp
  then have "pad 4 k = pad (Suc (Suc (Suc (Suc 0)))) k" by (simp only:)
  then show ?thesis by simp
qed

lemma showInt_sample: "showInt 1704067200000 = ''1704067200000''"
  by (simp add: showInt_def showNat_digit showNat_more digitChar_def)

subsection \<open>A Date survives \<open>toISOString\<close> and \<open>new Date\<close>\<close>

lemma digit_index:
  assumes "j < 10"
  shows "digitVal (''0123456789'' ! j) = j \<and> isDigit (''0123456789'' ! j)"
proof -
  from assms have "j = 0 \<or> j = 1 \<or> j = 2 \<or> j = 3 \<or> j = 4 \<or> j = 5 \<or> j = 6 \<or> j = 7
      \<or> j = 8 \<or> j = 9"
    by arith
  then show ?thesis
    by (elim disjE) (simp_all add: digitVal_def isDigit_def)
qed

lemma digitVal_digitChar: "digitVal (digitChar k) = k mod 10"
  using digit_index [of "k mod 10"] by (simp add: digitChar_def)

lemma isDigit_digitChar: "isDigit (digitChar k)"
  using digit_index [of "k mod 10"] by (simp add: digitChar_def)

lemma pad_digits: "list_all isDigit (pad n k)"
  by (induction n arbitrary: k) (simp_all add: isDigit_digitChar)

lemma numOfRev_pad: "numOfRev (rev (pad n k)) = k mod 10 ^ n"
proof (induction n arbitrary: k)
  case 0
  show ?case by simp
next
  case (Suc n)
  have "numOfRev (rev (pad (Suc n) k)) = k mod 10 + 10 * (k div 10 mod 10 ^ n)"
    by (simp add: digitVal_digitChar Suc)
  also have "\<dots> = k mod (10 * 10 ^ n)"
    by (simp add: mod_mult2_eq)
  finally show ?case by simp
qed

lemma numOf_pad: "k < 10 ^ n \<Longrightarrow> numOf (pad n k) = Some k"
  by (simp add: numOf_def pad_digits numOfRev_pad)

lemma numOf_2: "k < 100 \<Longrightarrow> numOf [digitChar (k div 10), digitChar k] = Some k"
  using numOf_pad [of k 2] by (simp add: pad_2)

lemma numOf_3:
  "k < 1000 \<Longrightarrow> numOf [digitChar (k div 10 div 10), digitChar (k div 10), digitChar k] = Some k"
  using numOf_pad [of k 3] by (simp add: pad_3)

lemma numOf_4:
  "k < 10000 \<Longrightarrow>
   numOf [digitChar (k div 10 div 10 div 10), digitChar (k div 10 div 10), digitChar (k div 10),
          digitChar k] = Some k"
  using numOf_pad [of k 4] by (simp add: pad_4)

lemma dayFromYear_less: "dayFromYear y < dayFromYear (y + 1)"
  by (simp add: dayFromYear_Suc daysInYear_def)

lemma dayFromYear_mono_nat: "dayFromYear y \<le> dayFromYear (y + int k)"
proof (induction k)
  case 0
  show ?case by simp
next
  case (Suc k)
  have "dayFromYear (y + int k) < dayFromYear (y + int k + 1)"
    by (rule dayFromYear_less)
  moreover have "y + int (Suc k) = y + int k + 1" by simp
  ultimately show ?case using Suc by (simp only:)
qed

lemma dayFromYear_mono: "a \<le> b \<Longrightarrow> dayFromYear a \<le> dayFromYear b"
  using dayFromYear_mono_nat [of a "nat (b - a)"] by simp

lemma dayFromYear_ge: "365 * int k \<le> dayFromYear (1970 + int k)"
proof (induction k)
  case 0
  show ?case by (simp add: dayFromYear_def)
next
  case (Suc k)
  have "dayFromYear (1970 + int (Suc k))
      = dayFromYear (1970 + int k) + daysInYear (1970 + int k)"
    using dayFromYear_Suc [of "1970 + int k"] by (simp add: algebra_simps)
  with Suc show ?case by (simp add: daysInYear_def)
qed

lemma dayFromYear_ge_neg: "- 366 * int k \<le> dayFromYear (1970 - int k)"
proof (induction k)
  case 0
  show ?case by (simp add: dayFromYear_def)
next
  case (Suc k)
  have "dayFromYear (1970 - int k)
      = dayFromYear (1970 - int (Suc k)) + daysInYear (1970 - int (Suc k))"
    using dayFromYear_Suc [of "1970 - int (Suc k)"] by (simp add: algebra_simps)
  with Suc show ?case by (simp add: daysInYear_def split: if_splits)
qed

lemma yearDown_le: "dayFromYear (yearDown y d) \<le> d"
proof (induction y d rule: yearDown.induct)
  case (1 y d)
  show ?case
  proof (cases "d < dayFromYear y")
    case True
    with 1 show ?thesis by (simp add: yearDown_less)
  next
    case False
    then show ?thesis by (simp add: yearDown_stop)
  qed
qed

lemma yearDown_gt: "d < dayFromYear (y + 1) \<Longrightarrow> d < dayFromYear (yearDown y d + 1)"
proof (induction y d rule: yearDown.induct)
  case (1 y d)
  show ?case
  proof (cases "d < dayFromYear y")
    case True
    with 1 show ?thesis by (simp add: yearDown_less)
  next
    case False
    with 1 show ?thesis by (simp add: yearDown_stop)
  qed
qed

lemma start_year_above:
  "d < dayFromYear (1970 + (if 0 \<le> d then d div 365 else d div 366) + 1)"
proof (cases "0 \<le> d")
  case True
  define k where "k = nat (d div 365 + 1)"
  have q: "0 \<le> d div 365" using True by (simp add: pos_imp_zdiv_nonneg_iff)
  have k: "int k = d div 365 + 1" using q by (simp add: k_def)
  have "d < 365 * (d div 365 + 1)"
  proof -
    define q where "q = d div 365"
    define m where "m = d mod 365"
    have "d = 365 * q + m" by (simp add: q_def m_def)
    moreover have "m < 365" by (simp add: m_def)
    ultimately have "d < 365 * (q + 1)" by (simp add: algebra_simps)
    then show ?thesis by (simp only: q_def)
  qed
  also have "\<dots> \<le> dayFromYear (1970 + int k)"
    using dayFromYear_ge [of k] by (simp add: k)
  finally show ?thesis using True by (simp add: k add.assoc)
next
  case False
  then have neg: "d < 0" by simp
  define k where "k = nat (- (d div 366 + 1))"
  have q: "d div 366 < 0" using neg by (simp add: neg_imp_zdiv_neg_iff)
  have k: "int k = - (d div 366 + 1)" using q by (simp add: k_def)
  have "d < 366 * (d div 366 + 1)"
  proof -
    define q where "q = d div 366"
    define m where "m = d mod 366"
    have "d = 366 * q + m" by (simp add: q_def m_def)
    moreover have "m < 366" by (simp add: m_def)
    ultimately have "d < 366 * (q + 1)" by (simp add: algebra_simps)
    then show ?thesis by (simp only: q_def)
  qed
  also have "\<dots> = - 366 * int k" by (simp add: k)
  also have "\<dots> \<le> dayFromYear (1970 - int k)" by (rule dayFromYear_ge_neg)
  also have "1970 - int k = 1970 + d div 366 + 1" by (simp add: k)
  finally show ?thesis using False by simp
qed

lemma yearFromDay_bounds:
  "dayFromYear (yearFromDay d) \<le> d \<and> d < dayFromYear (yearFromDay d + 1)"
  unfolding yearFromDay_def
  using yearDown_le yearDown_gt [OF start_year_above [of d]] by blast

lemma yearFromDay_range:
  assumes "- 719528 \<le> d" and "d < 2932897"
  shows "0 \<le> yearFromDay d \<and> yearFromDay d \<le> 9999"
proof -
  note b = yearFromDay_bounds [of d]
  have z: "dayFromYear 0 = - 719528" "dayFromYear 10000 = 2932897"
    by (simp_all add: dayFromYear_def)
  have "0 \<le> yearFromDay d"
  proof (rule ccontr)
    assume "\<not> 0 \<le> yearFromDay d"
    then have "yearFromDay d + 1 \<le> 0" by simp
    then have "dayFromYear (yearFromDay d + 1) \<le> dayFromYear 0" by (rule dayFromYear_mono)
    with b assms z show False by simp
  qed
  moreover have "yearFromDay d \<le> 9999"
  proof (rule ccontr)
    assume "\<not> yearFromDay d \<le> 9999"
    then have "10000 \<le> yearFromDay d" by simp
    then have "dayFromYear 10000 \<le> dayFromYear (yearFromDay d)" by (rule dayFromYear_mono)
    with b assms z show False by simp
  qed
  ultimately show ?thesis by simp
qed

lemma monthFromDay_bounds:
  assumes "0 \<le> n" and "n < (if lp then 366 else 365)"
  shows "1 \<le> monthFromDay lp n \<and> monthFromDay lp n \<le> 12
    \<and> daysBeforeMonth lp (monthFromDay lp n) \<le> n
    \<and> n < daysBeforeMonth lp (monthFromDay lp n + 1)
    \<and> daysBeforeMonth lp (monthFromDay lp n + 1) - daysBeforeMonth lp (monthFromDay lp n) \<le> 31"
  using assms
  by (cases lp) (simp_all add: monthFromDay_def daysBeforeMonth_def)

lemma time_of_day:
  fixes r :: nat
  shows "r div 3600000 * 3600000 + r div 60000 mod 60 * 60000 + r div 1000 mod 60 * 1000
         + r mod 1000 = r"
proof -
  define a where "a = r div 1000"
  define b where "b = a div 60"
  define h where "h = b div 60"
  define mi where "mi = b mod 60"
  define s where "s = a mod 60"
  define ms where "ms = r mod 1000"
  have e1: "r div 60000 = b"
    unfolding a_def b_def by (simp add: div_mult2_eq [symmetric])
  have e2: "r div 3600000 = h"
    unfolding a_def b_def h_def by (simp add: div_mult2_eq [symmetric])
  have r: "r = a * 1000 + ms" by (simp add: a_def ms_def)
  have a: "a = b * 60 + s" by (simp add: b_def s_def)
  have b: "b = h * 60 + mi" by (simp add: h_def mi_def)
  have "h * 3600000 + mi * 60000 + s * 1000 + ms = r"
    unfolding r a b by (simp add: algebra_simps)
  then show ?thesis
    unfolding e1 e2 h_def [symmetric] mi_def [symmetric] a_def [symmetric] s_def [symmetric]
      ms_def [symmetric] .
qed

lemma hour_bound: "r < 86400000 \<Longrightarrow> r div 3600000 \<le> 23" for r :: nat
  by (simp add: less_Suc_eq_le [symmetric] div_less_iff_less_mult)

lemma newDate_canonical:
  assumes "y < 10000" "m < 100" "d < 100" "h < 100" "mi < 100" "s < 100" "ms < 1000"
  shows "newDate (pad 4 y @ ''-'' @ pad 2 m @ ''-'' @ pad 2 d @ ''T'' @ pad 2 h @ '':''
            @ pad 2 mi @ '':'' @ pad 2 s @ ''.'' @ pad 3 ms @ ''Z'')
         = makeDate y m d h mi s ms"
    and "dateShaped (pad 4 y @ ''-'' @ pad 2 m @ ''-'' @ pad 2 d @ ''T'' @ pad 2 h @ '':''
            @ pad 2 mi @ '':'' @ pad 2 s @ ''.'' @ pad 3 ms @ ''Z'')"
  unfolding pad_2 pad_3 pad_4
  using assms
  by (simp_all add: newDate_def dateShaped_def field_def numOf_2 numOf_3 numOf_4
      isDigit_digitChar)

lemma day_range:
  assumes "isoYearRange t"
  shows "- 719528 \<le> t div msPerDay \<and> t div msPerDay < 2932897"
proof -
  have lo: "(- 62167219200000 :: int) div 86400000 \<le> t div 86400000"
    using assms by (intro zdiv_mono1) (simp_all add: isoYearRange_def)
  have "t \<le> 253402300799999" using assms by (simp add: isoYearRange_def)
  then have hi: "t div 86400000 \<le> (253402300799999 :: int) div 86400000"
    by (intro zdiv_mono1) simp_all
  show ?thesis using lo hi by (simp add: msPerDay_def)
qed

lemma iso_roundtrip:
  assumes "isoYearRange t"
  shows "newDate (toISOString t) = Time t \<and> dateShaped (toISOString t)"
proof -
  define d where "d = t div msPerDay"
  define r where "r = nat (t mod msPerDay)"
  define y where "y = yearFromDay d"
  define n where "n = d - dayFromYear y"
  define m where "m = monthFromDay (leapYear y) n"
  define dom where "dom = n - daysBeforeMonth (leapYear y) m + 1"
  have t: "t = d * msPerDay + int r"
    by (simp add: d_def r_def msPerDay_def)
  have r: "r < 86400000"
    by (simp add: r_def msPerDay_def nat_less_iff)
  have y: "0 \<le> y" "y \<le> 9999"
    using yearFromDay_range [of d] day_range [OF assms] by (simp_all add: y_def d_def)
  have n: "0 \<le> n" "n < (if leapYear y then 366 else 365)"
    using yearFromDay_bounds [of d] dayFromYear_Suc [of y]
    by (simp_all add: n_def y_def [symmetric] daysInYear_def)
  note mb = monthFromDay_bounds [OF n, folded m_def]
  have dom: "1 \<le> dom" "dom \<le> 31"
    "dom \<le> daysBeforeMonth (leapYear y) (m + 1) - daysBeforeMonth (leapYear y) m"
    using mb by (simp_all add: dom_def)
  have iso: "toISOString t = pad 4 (nat y) @ ''-'' @ pad 2 (nat m) @ ''-'' @ pad 2 (nat dom)
      @ ''T'' @ pad 2 (r div 3600000) @ '':'' @ pad 2 (r div 60000 mod 60) @ '':''
      @ pad 2 (r div 1000 mod 60) @ ''.'' @ pad 3 (r mod 1000) @ ''Z''"
    using y by (simp add: toISOString_def Let_def d_def r_def y_def n_def m_def dom_def)
  have h: "r div 3600000 \<le> 23" using r by (rule hour_bound)
  have m: "1 \<le> m" "m \<le> 12" using mb by simp_all
  have b: "nat y < 10000" "nat m < 100" "nat dom < 100" "r div 3600000 < 100"
    "r div 60000 mod 60 < 100" "r div 1000 mod 60 < 100" "r mod 1000 < 1000"
  proof -
    show "nat y < 10000" using y by linarith
    show "nat m < 100" using m by linarith
    show "nat dom < 100" using dom(1,2) by linarith
    show "r div 3600000 < 100" using h by linarith
    have "r div 60000 mod 60 < 60" by simp
    then show "r div 60000 mod 60 < 100" by linarith
    have "r div 1000 mod 60 < 60" by simp
    then show "r div 1000 mod 60 < 100" by linarith
    show "r mod 1000 < 1000" by simp
  qed
  have md: "makeDate (nat y) (nat m) (nat dom) (r div 3600000) (r div 60000 mod 60)
       (r div 1000 mod 60) (r mod 1000) = Time t"
  proof -
    have v: "1 \<le> nat m" "nat m \<le> 12" "1 \<le> nat dom" "int (nat m) = m" "int (nat dom) = dom"
      "int (nat y) = y" "r div 60000 mod 60 \<le> 59" "r div 1000 mod 60 \<le> 59"
    proof -
      show "1 \<le> nat m" "nat m \<le> 12" using m by linarith+
      show "1 \<le> nat dom" using dom(1) by linarith
      show "int (nat m) = m" using m by simp
      show "int (nat dom) = dom" using dom(1) by simp
      show "int (nat y) = y" using y by simp
      have "r div 60000 mod 60 < 60" by simp
      then show "r div 60000 mod 60 \<le> 59" by linarith
      have "r div 1000 mod 60 < 60" by simp
      then show "r div 1000 mod 60 \<le> 59" by linarith
    qed
    have day: "dayFromYear y + daysBeforeMonth (leapYear y) m + dom - 1 = d"
      by (simp add: dom_def n_def)
    have tod: "int (r div 3600000) * 3600000 + int (r div 60000 mod 60) * 60000
        + int (r div 1000 mod 60) * 1000 + int (r mod 1000) = int r"
      using time_of_day [of r, THEN arg_cong, of int] by (simp only: of_nat_add of_nat_mult of_nat_numeral)
    show ?thesis
      unfolding makeDate_def Let_def v(4-6) day
      using v(1-3,7,8) h dom(3) tod t by (simp add: v(4,5))
  qed
  show ?thesis
    unfolding iso using newDate_canonical [OF b] md by simp
qed

section \<open>Properties of the AI gateway\<close>

subsection \<open>Deduplication of news\<close>

lemma findIndex_ge: "- 1 \<le> findIndex P xs"
  by (induction xs) (auto simp: Let_def)

lemma findIndex_iff:
  "i < length xs \<Longrightarrow> (findIndex P xs = int i) = (P (xs ! i) \<and> (\<forall>j<i. \<not> P (xs ! j)))"
proof (induction xs arbitrary: i)
  case Nil
  then show ?case by simp
next
  case (Cons x xs)
  show ?case
  proof (cases i)
    case 0
    then show ?thesis using findIndex_ge [of P xs] by (auto simp: Let_def)
  next
    case (Suc k)
    with Cons.prems have k: "k < length xs" by simp
    have "(findIndex P (x # xs) = int i) = (\<not> P x \<and> findIndex P xs = int k)"
      using Suc findIndex_ge [of P xs] by (auto simp: Let_def)
    also have "\<dots> = (\<not> P x \<and> P (xs ! k) \<and> (\<forall>j<k. \<not> P (xs ! j)))"
      using Cons.IH [OF k] by simp
    also have "\<dots> = (P ((x # xs) ! i) \<and> (\<forall>j<i. \<not> P ((x # xs) ! j)))"
      using Suc by (auto simp: less_Suc_eq_0_disj)
    finally show ?thesis .
  qed
qed

lemma enumerate_index: "enumerate 0 xs = map (\<lambda>i. (i, xs ! i)) [0..<length xs]"
  by (rule nth_equalityI) (simp_all add: nth_enumerate_eq)

lemma filterIndexed_index:
  "filterIndexed p xs = map (\<lambda>i. xs ! i) (filter (\<lambda>i. p (xs ! i) i xs) [0..<length xs])"
  unfolding filterIndexed_def enumerate_index
  by (simp add: filter_map comp_def)

lemma unique_index:
  "unique items =
     map (\<lambda>i. items ! i)
       (filter (\<lambda>i. \<forall>j<i. url (items ! j) \<noteq> url (items ! i)) [0..<length items])"
proof -
  have "filter (\<lambda>i. int i = findIndex (\<lambda>t. url t = url (items ! i)) items) [0..<length items]
      = filter (\<lambda>i. \<forall>j<i. url (items ! j) \<noteq> url (items ! i)) [0..<length items]"
    by (rule filter_cong) (auto simp: findIndex_iff eq_commute [of "int _"])
  then show ?thesis
    unfolding unique_def filterIndexed_index by simp
qed

lemma fetch_length: "length (fst (fetchRealTimeNews env w)) \<le> 10"
  by (simp add: fetchRealTimeNews_def Let_def split: prod.splits option.splits)

lemma fetch_success:
  assumes "API_KEY env = Some k" "truthy k" "network env NewsSearch = Some r"
    "groundingMetadata r = Some gm" "groundingChunks gm = Some chunks"
    "newsItems env (clock w) chunks = Some its"
  shows "fst (fetchRealTimeNews env w) = take 10 (unique its)"
  using assms
  by (simp add: fetchRealTimeNews_def initializeGemini_def emit_def Let_def)

lemma unique_subseq: "subseq (unique items) items"
proof -
  have "subseq (map snd (filter (\<lambda>(i, x). int i = findIndex (\<lambda>t. url t = url x) items)
            (enumerate 0 items))) (map snd (enumerate 0 items))"
    by (intro subseq_map subseq_filter_left)
  then show ?thesis
    by (simp add: unique_def filterIndexed_def)
qed

lemma unique_distinct_links: "distinct (map url (unique items))"
proof -
  let ?Q = "\<lambda>i. \<forall>j<i. url (items ! j) \<noteq> url (items ! i)"
  have "inj_on (\<lambda>i. url (items ! i)) (set (filter ?Q [0..<length items]))"
  proof (rule inj_onI)
    fix i k
    assume i: "i \<in> set (filter ?Q [0..<length items])"
      and k: "k \<in> set (filter ?Q [0..<length items])"
      and e: "url (items ! i) = url (items ! k)"
    show "i = k"
    proof (rule ccontr)
      assume "i \<noteq> k"
      then consider "i < k" | "k < i" by linarith
      then show False
      proof cases
        case 1
        from k have "?Q k" by simp
        with 1 e show False by blast
      next
        case 2
        from i have "?Q i" by simp
        with 2 e show False by metis
      qed
    qed
  qed
  then have "distinct (map (\<lambda>i. url (items ! i)) (filter ?Q [0..<length items]))"
    by (simp add: distinct_map)
  then show ?thesis
    by (simp add: unique_index comp_def)
qed

lemma unique_keeps_every_link: "url ` set (unique items) = url ` set items"
proof
  have "set (unique items) \<subseteq> set items"
  proof
    fix x
    assume "x \<in> set (unique items)"
    then obtain i where i: "i \<in> set (filter (\<lambda>i. \<forall>j<i. url (items ! j) \<noteq> url (items ! i))
        [0..<length items])" and x: "x = items ! i"
      unfolding unique_index set_map by blast
    from i have "i < length items" by simp
    then show "x \<in> set items" unfolding x by (rule nth_mem)
  qed
  then show "url ` set (unique items) \<subseteq> url ` set items"
    by (rule image_mono)
next
  show "url ` set items \<subseteq> url ` set (unique items)"
  proof
    fix u
    assume "u \<in> url ` set items"
    then obtain x where x: "x \<in> set items" "u = url x" by blast
    then obtain k where k: "k < length items" "url (items ! k) = u"
      by (metis in_set_conv_nth)
    define i where "i = (LEAST i. i < length items \<and> url (items ! i) = u)"
    have "k < length items \<and> url (items ! k) = u" using k by simp
    then have p: "i < length items \<and> url (items ! i) = u"
      unfolding i_def by (rule LeastI)
    have m: "\<not> (j < length items \<and> url (items ! j) = u)" if "j < i" for j
      using that unfolding i_def by (rule not_less_Least)
    have q: "\<forall>j<i. url (items ! j) \<noteq> url (items ! i)"
    proof (intro allI impI)
      fix j
      assume j: "j < i"
      with p have "j < length items" by simp
      with m [OF j] have "url (items ! j) \<noteq> u" by simp
      with p show "url (items ! j) \<noteq> url (items ! i)" by simp
    qed
    let ?Q = "\<lambda>i. \<forall>j<i. url (items ! j) \<noteq> url (items ! i)"
    have "i \<in> set (filter ?Q [0..<length items])" using p q by simp
    then have "items ! i \<in> (\<lambda>i. items ! i) ` set (filter ?Q [0..<length items])"
      by (rule imageI)
    then have "items ! i \<in> set (unique items)"
      unfolding unique_index set_map .
    then have "url (items ! i) \<in> url ` set (unique items)" by (rule imageI)
    with p show "u \<in> url ` set (unique items)" by simp
  qed
qed

lemma sample_newsItems:
  "newsItems (onlineEnv a) 1704067200000 sampleChunks = Some sampleItems"
proof -
  have f: "filter usableChunk sampleChunks = [sampleChunks ! 0, sampleChunks ! 1, sampleChunks ! 3]"
    by (simp add: sampleChunks_def usableChunk_def truthy_def)
  have n: "showNat 0 = ''0''" "showNat (Suc 0) = ''1''" "showNat (Suc (Suc 0)) = ''2''"
    by (simp_all add: showNat_digit digitChar_def)
  show ?thesis
    unfolding newsItems_def f
    by (simp add: newsItemOf_def sampleChunks_def onlineEnv_def sampleHostname_def n
        showInt_sample sampleItems_def)
qed

text \<open>
  C5. The deduplication step keeps the item at index \<open>i\<close> exactly when no earlier
  index carries the same link, in the original order: what it returns is a
  subsequence of the items in which no link occurs twice and every link of the items
  occurs. What \<open>fetchRealTimeNews\<close> returns has at most ten items, and when the search
  succeeds it is the first ten of the deduplicated list.
\<close>

theorem news_dedup_keeps_first_per_link:
  "unique items =
     map (\<lambda>i. items ! i)
       (filter (\<lambda>i. \<forall>j<i. url (items ! j) \<noteq> url (items ! i)) [0..<length items])
   \<and> subseq (unique items) items
   \<and> distinct (map url (unique items))
   \<and> url ` set (unique items) = url ` set items
   \<and> length (fst (fetchRealTimeNews env w)) \<le> 10
   \<and> (API_KEY env = Some k \<and> truthy k \<and> network env NewsSearch = Some r
        \<and> groundingMetadata r = Some gm \<and> groundingChunks gm = Some chunks
        \<and> newsItems env (clock w) chunks = Some its
      \<longrightarrow> fst (fetchRealTimeNews env w) = take 10 (unique its))"
proof (intro conjI impI)
  show "unique items =
     map (\<lambda>i. items ! i)
       (filter (\<lambda>i. \<forall>j<i. url (items ! j) \<noteq> url (items ! i)) [0..<length items])"
    by (rule unique_index)
  show "subseq (unique items) items"
    by (rule unique_subseq)
  show "distinct (map url (unique items))"
    by (rule unique_distinct_links)
  show "url ` set (unique items) = url ` set items"
    by (rule unique_keeps_every_link)
  show "length (fst (fetchRealTimeNews env w)) \<le> 10"
    by (rule fetch_length)
  assume "API_KEY env = Some k \<and> truthy k \<and> network env NewsSearch = Some r
        \<and> groundingMetadata r = Some gm \<and> groundingChunks gm = Some chunks
        \<and> newsItems env (clock w) chunks = Some its"
  then show "fst (fetchRealTimeNews env w) = take 10 (unique its)"
    using fetch_success [of env k r gm chunks w its] by simp
qed

theorem news_dedup_witness:
  "fst (fetchRealTimeNews (onlineEnv (controlAnswer [] noArgs)) (initialWorld 1704067200000))
     = take 2 sampleItems
   \<and> unique sampleItems = take 2 sampleItems"
proof -
  let ?env = "onlineEnv (controlAnswer [] noArgs)"
  let ?w = "initialWorld 1704067200000"
  let ?r = "\<lparr>resp_text = Some ''news'', functionCalls = None,
             groundingMetadata = Some \<lparr>groundingChunks = Some sampleChunks\<rparr>\<rparr>"
  have c: "clock ?w = 1704067200000" by (simp add: initialWorld_def)
  have h: "API_KEY ?env = Some ''key'' \<and> truthy ''key'' \<and> network ?env NewsSearch = Some ?r
        \<and> groundingMetadata ?r = Some \<lparr>groundingChunks = Some sampleChunks\<rparr>
        \<and> groundingChunks \<lparr>groundingChunks = Some sampleChunks\<rparr> = Some sampleChunks
        \<and> newsItems ?env (clock ?w) sampleChunks = Some sampleItems"
    unfolding c sample_newsItems by (simp add: onlineEnv_def truthy_def sampleNetwork_def)
  have u: "map (\<lambda>i. sampleItems ! i)
       (filter (\<lambda>i. \<forall>j<i. url (sampleItems ! j) \<noteq> url (sampleItems ! i))
          [0..<length sampleItems])
     = take 2 sampleItems"
    by (simp add: sampleItems_def upt_rec [of 0] upt_rec [of 1] upt_rec [of 2] upt_rec [of 3]
        All_less_Suc less_Suc_eq)
  have t: "take 10 (take 2 sampleItems) = take 2 sampleItems" by simp
  from news_dedup_keeps_first_per_link [of sampleItems ?env ?w "''key''" ?r
      "\<lparr>groundingChunks = Some sampleChunks\<rparr>" sampleChunks sampleItems] h
  have "unique sampleItems = take 2 sampleItems
      \<and> fst (fetchRealTimeNews ?env ?w) = take 10 (unique sampleItems)"
    unfolding u by blast
  then show ?thesis using t by simp
qed

subsection \<open>Calls without a credential\<close>

lemma initializeGemini_absent:
  "credentialAbsent env \<Longrightarrow> initializeGemini env w = (None, missingKey w)"
  by (auto simp: credentialAbsent_def initializeGemini_def missingKey_def split: option.splits)

text \<open>
  C6. Without the credential each of the four capabilities returns its fixed
  fallback (\<open>null\<close>, the unavailable string, the empty list, the response that carries
  only the offline message), whatever the remote service would answer; the only
  effect is the console line, so no request is made.
\<close>

theorem gateway_without_credential:
  assumes "credentialAbsent env"
  shows "analyzeDisasterImage env base64Image w = (None, missingKey w)
    \<and> generateEmergencyPlanText env context w = (''AI Service Unavailable'', missingKey w)
    \<and> fetchRealTimeNews env w = ([], missingKey w)
    \<and> chatWithAssistant env history newMessage userLocation w
        = (\<lparr>chat_text = ''System offline.'', functionCall = None, chat_grounding = None\<rparr>,
           missingKey w)
    \<and> trace (missingKey w)
        = trace w @ [(clock w, ConsoleError ''API_KEY is missing from environment variables'')]"
  using initializeGemini_absent [OF assms, of w]
  by (simp add: analyzeDisasterImage_def generateEmergencyPlanText_def fetchRealTimeNews_def
      chatWithAssistant_def missingKey_def emit_def)

theorem gateway_without_credential_witness:
  "credentialAbsent offlineEnv
   \<and> analyzeDisasterImage offlineEnv ''aGVsbG8='' (initialWorld 0)
       = (None, missingKey (initialWorld 0))
   \<and> generateEmergencyPlanText offlineEnv ''flood'' (initialWorld 0)
       = (''AI Service Unavailable'', missingKey (initialWorld 0))
   \<and> fetchRealTimeNews offlineEnv (initialWorld 0) = ([], missingKey (initialWorld 0))
   \<and> chat_text (fst (chatWithAssistant offlineEnv [] ''hello'' None (initialWorld 0)))
       = ''System offline.''
   \<and> trace (missingKey (initialWorld 0))
       = [(0, ConsoleError ''API_KEY is missing from environment variables'')]"
proof -
  have a: "credentialAbsent offlineEnv"
    by (simp add: credentialAbsent_def offlineEnv_def onlineEnv_def)
  have t: "trace (initialWorld 0) = []" "clock (initialWorld 0) = 0"
    by (simp_all add: initialWorld_def)
  show ?thesis
    using a t gateway_without_credential [OF a, of "''aGVsbG8=''" "initialWorld 0" "''flood''"
        "[]" "''hello''" None]
    by simp
qed

section \<open>Properties of the command dispatcher\<close>

subsection \<open>How the state fields change\<close>

lemma addMessage_fields [simp]:
  "trace (addMessage m w) = trace w" "clock (addMessage m w) = clock w"
  "hash (addMessage m w) = hash w" "messages (addMessage m w) = messages w @ [m]"
  "userCoords (addMessage m w) = userCoords w"
  "localStorage (addMessage m w) = localStorage w"
  by (simp_all add: addMessage_def)

lemma emit_fields [simp]:
  "trace (emit e w) = trace w @ [(clock w, e)]" "clock (emit e w) = clock w"
  "hash (emit e w) = hash w" "messages (emit e w) = messages w"
  "userCoords (emit e w) = userCoords w"
  "localStorage (emit e w) = localStorage w"
  by (simp_all add: emit_def)

lemma delay_fields [simp]:
  "trace (delay n w) = trace w" "clock (delay n w) = clock w + n"
  "hash (delay n w) = hash w" "messages (delay n w) = messages w"
  "userCoords (delay n w) = userCoords w"
  "localStorage (delay n w) = localStorage w"
  by (simp_all add: delay_def)

lemma navigate_fields [simp]:
  "trace (navigate r w) = trace w @ [(clock w, Navigate r)]" "clock (navigate r w) = clock w"
  "hash (navigate r w) = ''#'' @ r" "messages (navigate r w) = messages w"
  "userCoords (navigate r w) = userCoords w"
  "localStorage (navigate r w) = localStorage w"
  by (simp_all add: navigate_def)

lemma triggerGuiding_fields [simp]:
  "trace (triggerGuiding w) = trace w @ [(clock w, SetTimeout (SetIsGuiding False) 2500)]"
  "clock (triggerGuiding w) = clock w"
  "hash (triggerGuiding w) = hash w" "messages (triggerGuiding w) = messages w"
  "userCoords (triggerGuiding w) = userCoords w"
  "localStorage (triggerGuiding w) = localStorage w"
  by (simp_all add: triggerGuiding_def)

lemma keyword_fields [simp]:
  "trace (keywordSimMode l w) = trace w" "clock (keywordSimMode l w) = clock w"
  "hash (keywordSimMode l w) = hash w" "messages (keywordSimMode l w) = messages w"
  "userCoords (keywordSimMode l w) = userCoords w"
  "localStorage (keywordSimMode l w) = localStorage w"
  by (simp_all add: keywordSimMode_def Let_def)

lemma chat_fst: "fst (chatWithAssistant env h m l w) = fst (chatWithAssistant env h m l w')"
  by (simp add: chatWithAssistant_def initializeGemini_def Let_def split: option.splits list.splits)

lemma chat_call_snd:
  "functionCall (fst (chatWithAssistant env h m l w)) = Some fc \<Longrightarrow>
   snd (chatWithAssistant env h m l w) = emit (NetworkCall (SendMessage h m l)) w"
  by (simp add: chatWithAssistant_def initializeGemini_def Let_def split: option.splits list.splits if_splits)

lemma speak_fields [simp]:
  "trace (speak env txt w) = trace w @ speech env (clock w) txt"
  "clock (speak env txt w) = clock w" "hash (speak env txt w) = hash w"
  "messages (speak env txt w) = messages w"
  "userCoords (speak env txt w) = userCoords w"
  "localStorage (speak env txt w) = localStorage w"
  by (simp_all add: speak_def speech_def Let_def)

lemma handleSend_unfold:
  assumes "truthy (trim txt)"
    and "functionCall (gatewayAnswer env txt w) = Some fc"
  shows "handleSend env txt w =
     dispatch env (gatewayAnswer env txt w)
       (emit (NetworkCall (SendMessage (historyOf (messages w)) txt (userCoords w)))
          (keywordSimMode (toLowerCase txt) ((addMessage (userMessage txt) w)\<lparr>isProcessing := True\<rparr>)))"
proof -
  let ?w2 = "keywordSimMode (toLowerCase txt) ((addMessage (userMessage txt) w)\<lparr>isProcessing := True\<rparr>)"
  let ?h = "historyOf (messages w)"
  have u: "userCoords ?w2 = userCoords w" by simp
  have f: "fst (chatWithAssistant env ?h txt (userCoords w) ?w2) = gatewayAnswer env txt w"
    unfolding gatewayAnswer_def by (rule chat_fst)
  with assms(2) have s: "snd (chatWithAssistant env ?h txt (userCoords w) ?w2)
      = emit (NetworkCall (SendMessage ?h txt (userCoords w))) ?w2"
    using chat_call_snd [of env "?h" "txt" "userCoords w" "?w2" fc] by simp
  have c: "chatWithAssistant env ?h txt (userCoords w) ?w2
      = (gatewayAnswer env txt w, emit (NetworkCall (SendMessage ?h txt (userCoords w))) ?w2)"
    using f s by (simp add: prod_eq_iff)
  show ?thesis
    using assms(1) by (simp add: handleSend_def Let_def userMessage_def [symmetric] c)
qed

lemma spokenTexts_append: "spokenTexts (a @ b) = spokenTexts a @ spokenTexts b"
  by (induction a rule: spokenTexts.induct) simp_all

lemma spokenTexts_speech:
  "spokenTexts (speech env t s) = (if speechSynthesis env \<and> truthy s then [s] else [])"
  by (simp add: speech_def)

lemma validRoutes_name:
  "r \<in> set validRoutes \<Longrightarrow>
   (if truthy (replaceFirst ''/'' [] r) then replaceFirst ''/'' [] r else ''Dashboard'')
     = routeName r"
  by (auto simp: validRoutes_def routeName_def truthy_def)

lemma validRoutes_truthy: "trim r \<in> set validRoutes \<Longrightarrow> truthy r"
  by (auto simp: validRoutes_def truthy_def trim_def)


lemma acknowledgement_truthy: "recognised args \<Longrightarrow> truthy (acknowledgement args)"
  by (auto simp: recognised_def acknowledgement_def truthy_def split: option.splits if_splits)

lemma control_feedback:
  "fst (openReportBlock args (mapBlock args (simulationBlock args (alertBlock args
          (navigateBlock args ([], w))))))
   = (if recognised args then acknowledgement args else [])"
  using validRoutes_name validRoutes_truthy
  by (auto simp: navigateBlock_def alertBlock_def simulationBlock_def mapBlock_def
      openReportBlock_def recognised_def acknowledgement_def Let_def truthy_def
      split: option.splits)

lemma control_messages:
  "messages (snd (openReportBlock args (mapBlock args (simulationBlock args (alertBlock args
          (navigateBlock args (fb, w)))))))
   = messages w"
  by (simp add: navigateBlock_def alertBlock_def simulationBlock_def mapBlock_def
      openReportBlock_def Let_def split: option.splits)

lemma control_spoken:
  "spokenTexts (trace (snd (openReportBlock args (mapBlock args (simulationBlock args
          (alertBlock args (navigateBlock args (fb, w)))))))) 
   = spokenTexts (trace w)"
  by (simp add: navigateBlock_def alertBlock_def simulationBlock_def mapBlock_def
      openReportBlock_def Let_def spokenTexts_append split: option.splits)

lemma controlApp_messages:
  "chat_text response = [] \<Longrightarrow>
   messages (controlApp env response args w)
   = messages w @ (if recognised args
                   then [\<lparr>msg_text = acknowledgement args, sender = AI, msg_grounding = None\<rparr>]
                   else [])"
  using control_feedback [of args w] control_messages [of args "[]" w]
    acknowledgement_truthy [of args]
  by (auto simp: controlApp_def truthy_def split: prod.splits)

lemma controlApp_messages_narrated:
  "truthy (chat_text response) \<Longrightarrow> messages (controlApp env response args w) = messages w"
  using control_messages [of args "chat_text response" w]
  by (auto simp: controlApp_def split: prod.splits)

lemma controlApp_spoken:
  "chat_text response = [] \<Longrightarrow>
   spokenTexts (trace (controlApp env response args w))
   = spokenTexts (trace w)
     @ (if speechSynthesis env \<and> recognised args then [acknowledgement args] else [])"
  using control_feedback [of args w] control_spoken [of args "[]" w]
    acknowledgement_truthy [of args]
  by (auto simp: controlApp_def truthy_def spokenTexts_append spokenTexts_speech
      split: prod.splits)

lemma controlApp_spoken_narrated:
  "truthy (chat_text response) \<Longrightarrow>
   spokenTexts (trace (controlApp env response args w)) = spokenTexts (trace w)"
  using control_spoken [of args "chat_text response" w]
  by (auto simp: controlApp_def split: prod.splits)

lemma spokenTexts_drop:
  "length a \<le> length b \<Longrightarrow> take (length a) b = a \<Longrightarrow>
   spokenTexts b = spokenTexts a @ spokenTexts (drop (length a) b)"
  by (metis append_take_drop_id spokenTexts_append)

lemma sample_answer:
  "gatewayAnswer (onlineEnv (controlAnswer narration args)) txt w
   = \<lparr>chat_text = narration,
      functionCall = Some \<lparr>call_name = ''controlApp'', call_args = args\<rparr>,
      chat_grounding = None\<rparr>"
  by (simp add: gatewayAnswer_def chatWithAssistant_def initializeGemini_def onlineEnv_def
      truthy_def sampleNetwork_def controlAnswer_def Let_def)

lemma initial_history: "historyOf (messages (initialWorld t)) = []"
  by (simp add: historyOf_def initialWorld_def filterIndexed_def)

lemma initial_fields:
  "trace (initialWorld t) = []" "clock (initialWorld t) = t" "hash (initialWorld t) = ''#/''"
  "userCoords (initialWorld t) = None"
  by (simp_all add: initialWorld_def)


subsection \<open>Simulation control\<close>

text \<open>
  C3. A \<open>controlApp\<close> call with action \<open>SIMULATION_CONTROL\<close> and sub-command \<open>START\<close>,
  received while the location hash is not that of the simulation view: after the
  request to the gateway (and the narration, when there is one) the trace holds the
  navigation to \<open>/simulation\<close> and then, 500 ms later on the clock, the \<open>aiden-sim\<close>
  event with the sub-command and the intensity; the synthesized feedback follows the
  event. The navigation stands immediately before the broadcast.
\<close>

theorem simulation_start_navigates_first:
  assumes "truthy (trim txt)"
    and "functionCall (gatewayAnswer env txt w)
         = Some \<lparr>call_name = ''controlApp'', call_args = args\<rparr>"
    and "arg_action args = Some ''SIMULATION_CONTROL''"
    and "arg_simulationCommand args = Some ''START''"
    and "hash w \<noteq> ''#/simulation''"
  shows "trace (handleSend env txt w) = trace w
      @ [(clock w, NetworkCall (SendMessage (historyOf (messages w)) txt (userCoords w)))]
      @ (if truthy (chat_text (gatewayAnswer env txt w))
         then speech env (clock w) (chat_text (gatewayAnswer env txt w)) else [])
      @ [(clock w, Navigate ''/simulation''),
         (clock w + 500,
          DispatchEvent ''aiden-sim'' (SimDetail (Some ''START'') (arg_intensityValue args)))]
      @ (if truthy (chat_text (gatewayAnswer env txt w)) then []
         else speech env (clock w + 500) ''Simulation protocol START executed.'')
    \<and> hash (handleSend env txt w) = ''#/simulation''"
  unfolding handleSend_unfold [OF assms(1) assms(2)]
  using assms(2-5)
  by (simp add: dispatch_def controlApp_def navigateBlock_def alertBlock_def simulationBlock_def
      mapBlock_def openReportBlock_def Let_def showOpt_def truthy_def split: option.splits)

theorem simulation_start_witness:
  "truthy (trim ''start the simulation'')
   \<and> hash (initialWorld 0) \<noteq> ''#/simulation''
   \<and> trace (handleSend (onlineEnv (controlAnswer [] simulationStart)) ''start the simulation''
                (initialWorld 0))
       = [(0, NetworkCall (SendMessage [] ''start the simulation'' None)),
          (0, Navigate ''/simulation''),
          (500, DispatchEvent ''aiden-sim'' (SimDetail (Some ''START'') None)),
          (500, SpeechCancel),
          (500, Speak ''Simulation protocol START executed.'')]
   \<and> hash (handleSend (onlineEnv (controlAnswer [] simulationStart)) ''start the simulation''
               (initialWorld 0))
       = ''#/simulation''"
proof -
  let ?env = "onlineEnv (controlAnswer [] simulationStart)"
  have t: "truthy (trim ''start the simulation'')"
    by (simp add: trim_def isSpace_def truthy_def)
  have f: "functionCall (gatewayAnswer ?env ''start the simulation'' (initialWorld 0))
      = Some \<lparr>call_name = ''controlApp'', call_args = simulationStart\<rparr>"
    by (simp add: sample_answer)
  have a: "arg_action simulationStart = Some ''SIMULATION_CONTROL''"
    "arg_simulationCommand simulationStart = Some ''START''"
    "arg_intensityValue simulationStart = None"
    by (simp_all add: simulationStart_def noArgs_def)
  have h: "hash (initialWorld 0) \<noteq> ''#/simulation''"
    by (simp add: initial_fields)
  have s: "speechSynthesis ?env" by (simp add: onlineEnv_def)
  show ?thesis
    using t h simulation_start_navigates_first [OF t f a(1) a(2) h]
    by (simp add: sample_answer initial_history initial_fields a speech_def s truthy_def)
qed

subsection \<open>Navigation\<close>

lemma handleSend_navigate:
  assumes "truthy (trim txt)"
    and "functionCall (gatewayAnswer env txt w)
         = Some \<lparr>call_name = ''controlApp'', call_args = args\<rparr>"
    and "chat_text (gatewayAnswer env txt w) = []"
    and "arg_action args = Some ''NAVIGATE''"
  shows "(\<forall>r. arg_route args = Some r \<and> trim r \<in> set validRoutes \<longrightarrow>
            trace (handleSend env txt w) = trace w
              @ [(clock w, NetworkCall (SendMessage (historyOf (messages w)) txt (userCoords w))),
                 (clock w, SetTimeout (SetIsGuiding False) 2500),
                 (clock w, Navigate (trim r))]
              @ speech env (clock w) (''Routing to '' @ routeName (trim r) @ ''.'')
            \<and> hash (handleSend env txt w) = ''#'' @ trim r
            \<and> messages (handleSend env txt w) = messages w
              @ [userMessage txt,
                 \<lparr>msg_text = ''Routing to '' @ routeName (trim r) @ ''.'', sender = AI,
                  msg_grounding = None\<rparr>])
       \<and> ((\<forall>r. arg_route args = Some r \<longrightarrow> trim r \<notin> set validRoutes) \<longrightarrow>
            trace (handleSend env txt w) = trace w
              @ [(clock w, NetworkCall (SendMessage (historyOf (messages w)) txt (userCoords w)))]
            \<and> hash (handleSend env txt w) = hash w
            \<and> messages (handleSend env txt w) = messages w @ [userMessage txt])"
proof (intro conjI allI impI)
  fix r
  assume r: "arg_route args = Some r \<and> trim r \<in> set validRoutes"
  then have t: "truthy r" using validRoutes_truthy by blast
  note n = validRoutes_name [of "trim r"]
  show "trace (handleSend env txt w) = trace w
              @ [(clock w, NetworkCall (SendMessage (historyOf (messages w)) txt (userCoords w))),
                 (clock w, SetTimeout (SetIsGuiding False) 2500),
                 (clock w, Navigate (trim r))]
              @ speech env (clock w) (''Routing to '' @ routeName (trim r) @ ''.'')"
    unfolding handleSend_unfold [OF assms(1) assms(2)]
    using assms(2-4) r t n
    by (simp add: dispatch_def controlApp_def navigateBlock_def alertBlock_def simulationBlock_def
      mapBlock_def openReportBlock_def Let_def truthy_def)
  show "hash (handleSend env txt w) = ''#'' @ trim r"
    unfolding handleSend_unfold [OF assms(1) assms(2)]
    using assms(2-4) r t n
    by (simp add: dispatch_def controlApp_def navigateBlock_def alertBlock_def simulationBlock_def
      mapBlock_def openReportBlock_def Let_def truthy_def)
  show "messages (handleSend env txt w) = messages w
              @ [userMessage txt,
                 \<lparr>msg_text = ''Routing to '' @ routeName (trim r) @ ''.'', sender = AI,
                  msg_grounding = None\<rparr>]"
    unfolding handleSend_unfold [OF assms(1) assms(2)]
    using assms(2-4) r t n
    by (simp add: dispatch_def controlApp_def navigateBlock_def alertBlock_def simulationBlock_def
      mapBlock_def openReportBlock_def Let_def truthy_def)
next
  assume r: "\<forall>r. arg_route args = Some r \<longrightarrow> trim r \<notin> set validRoutes"
  show "trace (handleSend env txt w) = trace w
              @ [(clock w, NetworkCall (SendMessage (historyOf (messages w)) txt (userCoords w)))]"
    unfolding handleSend_unfold [OF assms(1) assms(2)]
    using assms(2-4) r
    by (simp add: dispatch_def controlApp_def navigateBlock_def alertBlock_def simulationBlock_def
      mapBlock_def openReportBlock_def Let_def truthy_def split: option.splits)
  show "hash (handleSend env txt w) = hash w"
    unfolding handleSend_unfold [OF assms(1) assms(2)]
    using assms(2-4) r
    by (simp add: dispatch_def controlApp_def navigateBlock_def alertBlock_def simulationBlock_def
      mapBlock_def openReportBlock_def Let_def truthy_def split: option.splits)
  show "messages (handleSend env txt w) = messages w @ [userMessage txt]"
    unfolding handleSend_unfold [OF assms(1) assms(2)]
    using assms(2-4) r
    by (simp add: dispatch_def controlApp_def navigateBlock_def alertBlock_def simulationBlock_def
      mapBlock_def openReportBlock_def Let_def truthy_def split: option.splits)
qed

text \<open>
  C4 (amended). A \<open>controlApp\<close> call with action \<open>NAVIGATE\<close> and no narration: when the
  route, with surrounding white space trimmed, is one of the eight allow-listed
  routes, the dispatcher navigates to the trimmed route and shows and speaks the
  acknowledgement \<open>Routing to <name>.\<close>, the name being the route without its slash
  (\<open>Dashboard\<close> for \<open>/\<close>); when there is no route or the trimmed route is not on the list,
  nothing but the request to the gateway happens: no navigation, no assistant message.
\<close>

theorem navigate_allow_list:
  assumes "truthy (trim txt)"
    and "functionCall (gatewayAnswer env txt w)
         = Some \<lparr>call_name = ''controlApp'', call_args = args\<rparr>"
    and "chat_text (gatewayAnswer env txt w) = []"
    and "arg_action args = Some ''NAVIGATE''"
  shows "(\<forall>r. arg_route args = Some r \<and> trim r \<in> set validRoutes \<longrightarrow>
            trace (handleSend env txt w) = trace w
              @ [(clock w, NetworkCall (SendMessage (historyOf (messages w)) txt (userCoords w))),
                 (clock w, SetTimeout (SetIsGuiding False) 2500),
                 (clock w, Navigate (trim r))]
              @ speech env (clock w) (''Routing to '' @ routeName (trim r) @ ''.'')
            \<and> hash (handleSend env txt w) = ''#'' @ trim r
            \<and> messages (handleSend env txt w) = messages w
              @ [userMessage txt,
                 \<lparr>msg_text = ''Routing to '' @ routeName (trim r) @ ''.'', sender = AI,
                  msg_grounding = None\<rparr>])
       \<and> ((\<forall>r. arg_route args = Some r \<longrightarrow> trim r \<notin> set validRoutes) \<longrightarrow>
            trace (handleSend env txt w) = trace w
              @ [(clock w, NetworkCall (SendMessage (historyOf (messages w)) txt (userCoords w)))]
            \<and> hash (handleSend env txt w) = hash w
            \<and> messages (handleSend env txt w) = messages w @ [userMessage txt])"
  using assms by (rule handleSend_navigate)

theorem navigate_allow_list_witness:
  "truthy (trim ''show me the map'')
   \<and> trim ''/map'' \<in> set validRoutes
   \<and> trace (handleSend (onlineEnv (controlAnswer [] (navigateTo ''/map''))) ''show me the map''
                (initialWorld 0))
       = [(0, NetworkCall (SendMessage [] ''show me the map'' None)),
          (0, SetTimeout (SetIsGuiding False) 2500),
          (0, Navigate ''/map''),
          (0, SpeechCancel),
          (0, Speak ''Routing to map.'')]
   \<and> hash (handleSend (onlineEnv (controlAnswer [] (navigateTo ''/map''))) ''show me the map''
               (initialWorld 0))
       = ''#/map''
   \<and> trim ''/nonexistent'' \<notin> set validRoutes
   \<and> trace (handleSend (onlineEnv (controlAnswer [] (navigateTo ''/nonexistent'')))
                ''show me the map'' (initialWorld 0))
       = [(0, NetworkCall (SendMessage [] ''show me the map'' None))]
   \<and> hash (handleSend (onlineEnv (controlAnswer [] (navigateTo ''/nonexistent'')))
               ''show me the map'' (initialWorld 0))
       = ''#/''
   \<and> messages (handleSend (onlineEnv (controlAnswer [] (navigateTo ''/nonexistent'')))
                   ''show me the map'' (initialWorld 0))
       = messages (initialWorld 0) @ [userMessage ''show me the map'']"
proof -
  let ?good = "onlineEnv (controlAnswer [] (navigateTo ''/map''))"
  let ?bad = "onlineEnv (controlAnswer [] (navigateTo ''/nonexistent''))"
  let ?w = "initialWorld 0"
  have t: "truthy (trim ''show me the map'')"
    by (simp add: trim_def isSpace_def truthy_def)
  have tr: "trim ''/map'' = ''/map''" "trim ''/nonexistent'' = ''/nonexistent''"
    by (simp_all add: trim_def isSpace_def)
  have v: "trim ''/map'' \<in> set validRoutes" "trim ''/nonexistent'' \<notin> set validRoutes"
    by (simp_all add: tr validRoutes_def)
  have s: "speechSynthesis ?good" by (simp add: onlineEnv_def)
  have g: "functionCall (gatewayAnswer ?good ''show me the map'' ?w)
        = Some \<lparr>call_name = ''controlApp'', call_args = navigateTo ''/map''\<rparr>"
      "chat_text (gatewayAnswer ?good ''show me the map'' ?w) = []"
      "arg_action (navigateTo ''/map'') = Some ''NAVIGATE''"
      "arg_route (navigateTo ''/map'') = Some ''/map''"
    by (simp_all add: sample_answer navigateTo_def noArgs_def)
  have b: "functionCall (gatewayAnswer ?bad ''show me the map'' ?w)
        = Some \<lparr>call_name = ''controlApp'', call_args = navigateTo ''/nonexistent''\<rparr>"
      "chat_text (gatewayAnswer ?bad ''show me the map'' ?w) = []"
      "arg_action (navigateTo ''/nonexistent'') = Some ''NAVIGATE''"
      "arg_route (navigateTo ''/nonexistent'') = Some ''/nonexistent''"
    by (simp_all add: sample_answer navigateTo_def noArgs_def)
  from navigate_allow_list [OF t g(1) g(2) g(3)] g(4) v(1)
  have good: "trace (handleSend ?good ''show me the map'' ?w) = trace ?w
              @ [(clock ?w, NetworkCall (SendMessage (historyOf (messages ?w))
                    ''show me the map'' (userCoords ?w))),
                 (clock ?w, SetTimeout (SetIsGuiding False) 2500),
                 (clock ?w, Navigate (trim ''/map''))]
              @ speech ?good (clock ?w) (''Routing to '' @ routeName (trim ''/map'') @ ''.'')
            \<and> hash (handleSend ?good ''show me the map'' ?w) = ''#'' @ trim ''/map''"
    by blast
  from navigate_allow_list [OF t b(1) b(2) b(3)] b(4) v(2)
  have bad: "trace (handleSend ?bad ''show me the map'' ?w) = trace ?w
              @ [(clock ?w, NetworkCall (SendMessage (historyOf (messages ?w))
                    ''show me the map'' (userCoords ?w)))]
            \<and> hash (handleSend ?bad ''show me the map'' ?w) = hash ?w
            \<and> messages (handleSend ?bad ''show me the map'' ?w)
              = messages ?w @ [userMessage ''show me the map'']"
    by simp
  show ?thesis
    using t v good bad
    by (simp add: initial_history initial_fields tr speech_def s truthy_def routeName_def)
qed

theorem navigate_untrimmed_route_counterexample:
  "'' /map'' \<notin> set validRoutes
   \<and> trace (handleSend (onlineEnv (controlAnswer [] (navigateTo '' /map''))) ''show me the map''
                (initialWorld 0))
       = [(0, NetworkCall (SendMessage [] ''show me the map'' None)),
          (0, SetTimeout (SetIsGuiding False) 2500),
          (0, Navigate ''/map''),
          (0, SpeechCancel),
          (0, Speak ''Routing to map.'')]
   \<and> hash (handleSend (onlineEnv (controlAnswer [] (navigateTo '' /map''))) ''show me the map''
               (initialWorld 0))
       = ''#/map''"
proof -
  let ?env = "onlineEnv (controlAnswer [] (navigateTo '' /map''))"
  let ?w = "initialWorld 0"
  have t: "truthy (trim ''show me the map'')"
    by (simp add: trim_def isSpace_def truthy_def)
  have tr: "trim '' /map'' = ''/map''"
    by (simp add: trim_def isSpace_def)
  have v: "'' /map'' \<notin> set validRoutes" "trim '' /map'' \<in> set validRoutes"
    by (simp_all add: tr validRoutes_def)
  have s: "speechSynthesis ?env" by (simp add: onlineEnv_def)
  have g: "functionCall (gatewayAnswer ?env ''show me the map'' ?w)
        = Some \<lparr>call_name = ''controlApp'', call_args = navigateTo '' /map''\<rparr>"
      "chat_text (gatewayAnswer ?env ''show me the map'' ?w) = []"
      "arg_action (navigateTo '' /map'') = Some ''NAVIGATE''"
      "arg_route (navigateTo '' /map'') = Some '' /map''"
    by (simp_all add: sample_answer navigateTo_def noArgs_def)
  from handleSend_navigate [OF t g(1) g(2) g(3)] g(4) v(2)
  have "trace (handleSend ?env ''show me the map'' ?w) = trace ?w
              @ [(clock ?w, NetworkCall (SendMessage (historyOf (messages ?w))
                    ''show me the map'' (userCoords ?w))),
                 (clock ?w, SetTimeout (SetIsGuiding False) 2500),
                 (clock ?w, Navigate (trim '' /map''))]
              @ speech ?env (clock ?w) (''Routing to '' @ routeName (trim '' /map'') @ ''.'')
            \<and> hash (handleSend ?env ''show me the map'' ?w) = ''#'' @ trim '' /map''"
    by blast
  then show ?thesis
    using v(1)
    by (simp add: initial_history initial_fields tr speech_def s truthy_def routeName_def)
qed

subsection \<open>Narration and synthesized feedback\<close>

lemma handleSend_controlApp_turn:
  assumes "truthy (trim txt)"
    and "functionCall (gatewayAnswer env txt w)
         = Some \<lparr>call_name = ''controlApp'', call_args = args\<rparr>"
  shows "messages (handleSend env txt w)
         = messages w @ userMessage txt
             # (if truthy (chat_text (gatewayAnswer env txt w))
                then [\<lparr>msg_text = chat_text (gatewayAnswer env txt w), sender = AI,
                       msg_grounding = chat_grounding (gatewayAnswer env txt w)\<rparr>]
                else if recognised args
                then [\<lparr>msg_text = acknowledgement args, sender = AI, msg_grounding = None\<rparr>]
                else [])
     \<and> spokenTexts (trace (handleSend env txt w))
         = spokenTexts (trace w)
             @ (if \<not> speechSynthesis env then []
                else if truthy (chat_text (gatewayAnswer env txt w))
                then [chat_text (gatewayAnswer env txt w)]
                else if recognised args then [acknowledgement args]
                else [])"
proof (cases "truthy (chat_text (gatewayAnswer env txt w))")
  case True
  show ?thesis
    unfolding handleSend_unfold [OF assms(1) assms(2)]
    using assms(2) True
    by (simp add: dispatch_def Let_def controlApp_messages_narrated controlApp_spoken_narrated
        spokenTexts_append spokenTexts_speech)
next
  case False
  then have e: "chat_text (gatewayAnswer env txt w) = []" by (simp add: truthy_def)
  show ?thesis
    unfolding handleSend_unfold [OF assms(1) assms(2)]
    using assms(2) False
    by (simp add: dispatch_def Let_def controlApp_messages [OF e] controlApp_spoken [OF e]
        spokenTexts_append)
qed

text \<open>
  C9 (amended). For a response that carries a \<open>controlApp\<close> call the turn adds the
  user's message and at most one assistant message: the narration when there is one
  (and then no synthesized feedback); otherwise the synthesized acknowledgement when
  the call is recognised; otherwise none. The texts spoken in the turn are the texts
  of these assistant messages (none on a host without speech synthesis).
\<close>

theorem one_assistant_message_at_most:
  assumes "truthy (trim txt)"
    and "functionCall (gatewayAnswer env txt w)
         = Some \<lparr>call_name = ''controlApp'', call_args = args\<rparr>"
  shows "messages (handleSend env txt w)
         = messages w @ userMessage txt
             # (if truthy (chat_text (gatewayAnswer env txt w))
                then [\<lparr>msg_text = chat_text (gatewayAnswer env txt w), sender = AI,
                       msg_grounding = chat_grounding (gatewayAnswer env txt w)\<rparr>]
                else if recognised args
                then [\<lparr>msg_text = acknowledgement args, sender = AI, msg_grounding = None\<rparr>]
                else [])
     \<and> spokenTexts (trace (handleSend env txt w))
         = spokenTexts (trace w)
             @ (if \<not> speechSynthesis env then []
                else if truthy (chat_text (gatewayAnswer env txt w))
                then [chat_text (gatewayAnswer env txt w)]
                else if recognised args then [acknowledgement args]
                else [])"
  using assms by (rule handleSend_controlApp_turn)

theorem one_assistant_message_witness:
  "truthy (trim ''show me the map'')
   \<and> messages (handleSend (onlineEnv (controlAnswer ''Routing to sector map.''
                   (navigateTo ''/map''))) ''show me the map'' (initialWorld 0))
       = messages (initialWorld 0)
         @ [userMessage ''show me the map'',
            \<lparr>msg_text = ''Routing to sector map.'', sender = AI, msg_grounding = None\<rparr>]
   \<and> spokenTexts (trace (handleSend (onlineEnv (controlAnswer ''Routing to sector map.''
                   (navigateTo ''/map''))) ''show me the map'' (initialWorld 0)))
       = [''Routing to sector map.'']"
proof -
  let ?env = "onlineEnv (controlAnswer ''Routing to sector map.'' (navigateTo ''/map''))"
  let ?w = "initialWorld 0"
  have t: "truthy (trim ''show me the map'')"
    by (simp add: trim_def isSpace_def truthy_def)
  have g: "functionCall (gatewayAnswer ?env ''show me the map'' ?w)
        = Some \<lparr>call_name = ''controlApp'', call_args = navigateTo ''/map''\<rparr>"
    by (simp add: sample_answer)
  have s: "speechSynthesis ?env" by (simp add: onlineEnv_def)
  show ?thesis
    using t one_assistant_message_at_most [OF t g]
    by (simp add: sample_answer initial_fields s truthy_def)
qed

theorem no_assistant_message_counterexample:
  "functionCall (gatewayAnswer (onlineEnv (controlAnswer [] (navigateTo ''/nonexistent'')))
       ''show me the map'' (initialWorld 0))
     = Some \<lparr>call_name = ''controlApp'', call_args = navigateTo ''/nonexistent''\<rparr>
   \<and> filter (\<lambda>m. sender m = AI)
        (newMessages (initialWorld 0)
           (handleSend (onlineEnv (controlAnswer [] (navigateTo ''/nonexistent'')))
              ''show me the map'' (initialWorld 0)))
     = []"
proof -
  let ?env = "onlineEnv (controlAnswer [] (navigateTo ''/nonexistent''))"
  let ?w = "initialWorld 0"
  have t: "truthy (trim ''show me the map'')"
    by (simp add: trim_def isSpace_def truthy_def)
  have g: "functionCall (gatewayAnswer ?env ''show me the map'' ?w)
        = Some \<lparr>call_name = ''controlApp'', call_args = navigateTo ''/nonexistent''\<rparr>"
    by (simp add: sample_answer)
  have tr: "trim ''/nonexistent'' = ''/nonexistent''"
    by (simp add: trim_def isSpace_def)
  have r: "\<not> recognised (navigateTo ''/nonexistent'')"
    by (simp add: recognised_def navigateTo_def noArgs_def tr validRoutes_def)
  have n: "\<not> truthy (chat_text (gatewayAnswer ?env ''show me the map'' ?w))"
    by (simp add: sample_answer truthy_def)
  have "messages (handleSend ?env ''show me the map'' ?w)
      = messages ?w @ [userMessage ''show me the map'']"
    using handleSend_controlApp_turn [OF t g] r n by simp
  then show ?thesis
    using g by (simp add: newMessages_def userMessage_def)
qed

section \<open>Properties of the local store\<close>

subsection \<open>The functions of the API object, unfolded\<close>

lemma init_slots:
  "REPORTS (init env st) = Some (seededReports env st)"
  "CONTACTS (init env st) = Some (seededContacts st)"
  "RESOURCES (init env st)
     = Some (case RESOURCES st of Some raw \<Rightarrow> raw | None \<Rightarrow> map stringifyResource MOCK_RESOURCES)"
  "ALERTS (init env st)
     = Some (case ALERTS st of Some raw \<Rightarrow> raw
             | None \<Rightarrow> map stringifyAlert (MOCK_ALERTS (loadTime env)))"
  "NEWS (init env st)
     = Some (case NEWS st of Some raw \<Rightarrow> raw
             | None \<Rightarrow> map stringifyNews (MOCK_NEWS (loadTime env)))"
  by (auto simp: init_def Let_def seededReports_def seededContacts_def split: option.splits)

lemma init_idem: "init env (init env st) = init env st"
proof -
  have "REPORTS (init env st) \<noteq> None" "RESOURCES (init env st) \<noteq> None"
    "ALERTS (init env st) \<noteq> None" "NEWS (init env st) \<noteq> None"
    "CONTACTS (init env st) \<noteq> None"
    by (simp_all add: init_slots)
  then show ?thesis
    by (simp add: init_def [of env "init env st"] Let_def)
qed

lemma getReports_eq:
  "getReports env w
   = (map reviveReport (seededReports env (localStorage w)),
      w\<lparr>clock := clock w + 300, localStorage := init env (localStorage w)\<rparr>)"
  by (simp add: getReports_def Let_def delay_def init_slots)

lemma getContacts_eq:
  "getContacts env w
   = (map parseContact (seededContacts (localStorage w)),
      w\<lparr>clock := clock w + 200, localStorage := init env (localStorage w)\<rparr>)"
  by (simp add: getContacts_def Let_def delay_def init_slots)

lemma verifyReport_eq:
  "verifyReport env reportId w
   = (w\<lparr>clock := clock w + 700,
         localStorage := (init env (localStorage w))
           \<lparr>REPORTS := Some (map stringifyReport
               (map (\<lambda>r. if report_id r = Str reportId then r\<lparr>verified := True\<rparr> else r)
                  (map reviveReport (seededReports env (localStorage w)))))\<rparr>,
         trace := trace w @ [(clock w + 700, DispatchEvent ''db-reports-updated'' NoDetail)]\<rparr>)"
  by (simp add: verifyReport_def getReports_eq Let_def delay_def emit_def)

lemma createReport_eq:
  "createReport env report w
   = (\<lparr>report_id = Str (randomUUID env), report_type = payload_type report,
       description = payload_description report,
       report_timestamp = DateObj (Time (clock w + 900)),
       coordinates = payload_coordinates report, verified = False\<rparr>,
      w\<lparr>clock := clock w + 900,
        localStorage := (init env (localStorage w))
          \<lparr>REPORTS := Some (map stringifyReport
              (map reviveReport (seededReports env (localStorage w))
               @ [\<lparr>report_id = Str (randomUUID env), report_type = payload_type report,
                   description = payload_description report,
                   report_timestamp = DateObj (Time (clock w + 900)),
                   coordinates = payload_coordinates report, verified = False\<rparr>]))\<rparr>,
        trace := trace w @ [(clock w + 900, DispatchEvent ''db-reports-updated'' NoDetail)]\<rparr>)"
  by (simp add: createReport_def getReports_eq Let_def delay_def emit_def add.commute)

lemma deleteContact_eq:
  "deleteContact env cid w
   = w\<lparr>clock := clock w + 500,
        localStorage := (init env (localStorage w))
          \<lparr>CONTACTS := Some (map stringifyContact
              (filter (\<lambda>c. contact_id c \<noteq> Str cid)
                 (map parseContact (seededContacts (localStorage w)))))\<rparr>\<rparr>"
  by (simp add: deleteContact_def getContacts_eq Let_def delay_def)

lemma rewrite_plain:
  "\<not> dateShaped s \<Longrightarrow> stringifyValue (dateReviver k (JString s)) = JString s"
  "stringifyValue (dateReviver k JNull) = JNull"
  "stringifyValue (dateReviver k JAbsent) = JAbsent"
  by (simp_all add: stringifyValue_def dateReviver_def)

lemma rewrite_iso:
  "isoYearRange t \<Longrightarrow>
   stringifyValue (dateReviver k (JString (toISOString t))) = JString (toISOString t)"
  using iso_roundtrip [of t] by (simp add: stringifyValue_def dateReviver_def)

lemma revive_stringify:
  "\<not> dateShaped s \<Longrightarrow> dateReviver k (stringifyValue (Str s)) = Str s"
  "isoYearRange t \<Longrightarrow> dateReviver k (stringifyValue (DateObj (Time t))) = DateObj (Time t)"
  "dateReviver k (stringifyValue Null) = Null"
  "dateReviver k (stringifyValue Undefined) = Undefined"
  using iso_roundtrip [of t] by (simp_all add: stringifyValue_def dateReviver_def)

lemma parse_stringify: "parseValue (stringifyValue (Str s)) = Str s"
  by (simp add: parseValue_def stringifyValue_def)

lemma stringify_parse: "stringifyValue (parseValue v) = v"
  by (cases v) (simp_all add: parseValue_def stringifyValue_def)

lemma stringify_parse_contact: "stringifyContact (parseContact c) = c"
  by (simp add: stringifyContact_def parseContact_def stringify_parse)

lemma parse_id: "(contact_id (parseContact c) \<noteq> Str cid) = (contact_id c \<noteq> JString cid)"
  by (cases "contact_id c") (simp_all add: parseContact_def parseValue_def)





subsection \<open>Seeding\<close>

lemma getters_storage:
  "localStorage (snd (getReports env w)) = init env (localStorage w)"
  "localStorage (snd (getResources env w)) = init env (localStorage w)"
  "localStorage (snd (getAlerts env w)) = init env (localStorage w)"
  "localStorage (snd (getNews env w)) = init env (localStorage w)"
  "localStorage (snd (getContacts env w)) = init env (localStorage w)"
  by (simp_all add: getReports_def getResources_def getAlerts_def getNews_def getContacts_def
      Let_def delay_def)

lemma fixture_strings_plain:
  "\<not> dateShaped ''r1''" "\<not> dateShaped ''r2''" "\<not> dateShaped ''FLOOD''" "\<not> dateShaped ''FIRE''"
  "\<not> dateShaped ''Water rising rapidly near the river bank.''"
  "\<not> dateShaped ''Smoke spotted on the northern ridge.''"
  "\<not> dateShaped ''a1''" "\<not> dateShaped ''a2''" "\<not> dateShaped ''CRITICAL''" "\<not> dateShaped ''HIGH''"
  "\<not> dateShaped ''n1''" "\<not> dateShaped ''n2''" "\<not> dateShaped ''n3''" "\<not> dateShaped ''#''"
  by (simp_all add: dateShaped_def)

lemma not_shaped_letter: "\<not> isDigit c \<Longrightarrow> \<not> dateShaped (c # s)"
  by (auto simp: dateShaped_def)

lemma first_read_reports:
  assumes "isoYearRange (now - 43200000)" and "isoYearRange now"
  shows "map reviveReport (map stringifyReport (MOCK_REPORTS now)) = MOCK_REPORTS now"
proof -
  have r: "isoYearRange (now - 3600000)"
    using assms by (simp add: isoYearRange_def)
  show ?thesis
    using assms(2) r
    by (simp add: MOCK_REPORTS_def reviveReport_def stringifyReport_def revive_stringify
        fixture_strings_plain)
qed

lemma first_read_alerts:
  assumes "isoYearRange (now - 43200000)" and "isoYearRange now"
  shows "map reviveAlert (map stringifyAlert (MOCK_ALERTS now)) = MOCK_ALERTS now"
proof -
  have r: "isoYearRange (now - 1800000)"
    using assms by (simp add: isoYearRange_def)
  show ?thesis
    using assms(2) r
    by (simp add: MOCK_ALERTS_def reviveAlert_def stringifyAlert_def revive_stringify
        fixture_strings_plain not_shaped_letter isDigit_def)
qed

lemma first_read_news:
  assumes "isoYearRange (now - 43200000)" and "isoYearRange now"
  shows "map reviveNews (map stringifyNews (MOCK_NEWS now)) = MOCK_NEWS now"
proof -
  have r: "isoYearRange (now - 7200000)" "isoYearRange (now - 18000000)"
    using assms by (simp_all add: isoYearRange_def)
  show ?thesis
    using assms(1) r
    by (simp add: MOCK_NEWS_def reviveNews_def stringifyNews_def revive_stringify
        fixture_strings_plain not_shaped_letter isDigit_def)
qed

lemma first_read_plain:
  "map parseResource (map stringifyResource MOCK_RESOURCES) = MOCK_RESOURCES"
  "map parseContact (map stringifyContact MOCK_CONTACTS) = MOCK_CONTACTS"
  by (simp_all add: MOCK_RESOURCES_def MOCK_CONTACTS_def parseResource_def stringifyResource_def
      parseContact_def stringifyContact_def parse_stringify)

text \<open>
  C8. Seeding is idempotent: \<open>init\<close> applied twice is \<open>init\<close> applied once, and on an empty
  storage it writes the five serialised fixtures; every read leaves the storage as
  \<open>init\<close> leaves it, so a second read stores what the first stored and no record is
  duplicated; the first read of the resources and of the contacts from an empty
  storage returns exactly the fixture. The first read of the three dated collections
  (reports, alerts, news) returns exactly the fixture when the clock reading at
  module load lies in the years 0000 to 9999 (less twelve hours, the age of the
  oldest fixture), where \<open>toISOString\<close> writes a four-digit year.
\<close>

theorem seeding_idempotent:
  "init env (init env st) = init env st
   \<and> init env emptyStorage
       = \<lparr>REPORTS = Some (map stringifyReport (MOCK_REPORTS (loadTime env))),
          RESOURCES = Some (map stringifyResource MOCK_RESOURCES),
          ALERTS = Some (map stringifyAlert (MOCK_ALERTS (loadTime env))),
          NEWS = Some (map stringifyNews (MOCK_NEWS (loadTime env))),
          CONTACTS = Some (map stringifyContact MOCK_CONTACTS)\<rparr>
   \<and> localStorage (snd (getReports env w)) = init env (localStorage w)
   \<and> localStorage (snd (getResources env w)) = init env (localStorage w)
   \<and> localStorage (snd (getAlerts env w)) = init env (localStorage w)
   \<and> localStorage (snd (getNews env w)) = init env (localStorage w)
   \<and> localStorage (snd (getContacts env w)) = init env (localStorage w)
   \<and> localStorage (snd (getReports env (snd (getReports env w))))
       = localStorage (snd (getReports env w))
   \<and> fst (getResources env (w\<lparr>localStorage := emptyStorage\<rparr>)) = MOCK_RESOURCES
   \<and> fst (getContacts env (w\<lparr>localStorage := emptyStorage\<rparr>)) = MOCK_CONTACTS
   \<and> (isoYearRange (loadTime env - 43200000) \<and> isoYearRange (loadTime env) \<longrightarrow>
        fst (getReports env (w\<lparr>localStorage := emptyStorage\<rparr>)) = MOCK_REPORTS (loadTime env)
        \<and> fst (getAlerts env (w\<lparr>localStorage := emptyStorage\<rparr>)) = MOCK_ALERTS (loadTime env)
        \<and> fst (getNews env (w\<lparr>localStorage := emptyStorage\<rparr>)) = MOCK_NEWS (loadTime env))"
proof -
  have e: "REPORTS emptyStorage = None" "RESOURCES emptyStorage = None"
    "ALERTS emptyStorage = None" "NEWS emptyStorage = None" "CONTACTS emptyStorage = None"
    by (simp_all add: emptyStorage_def)
  have seeded: "init env emptyStorage
       = \<lparr>REPORTS = Some (map stringifyReport (MOCK_REPORTS (loadTime env))),
          RESOURCES = Some (map stringifyResource MOCK_RESOURCES),
          ALERTS = Some (map stringifyAlert (MOCK_ALERTS (loadTime env))),
          NEWS = Some (map stringifyNews (MOCK_NEWS (loadTime env))),
          CONTACTS = Some (map stringifyContact MOCK_CONTACTS)\<rparr>"
    by (simp add: init_def emptyStorage_def Let_def)
  have res: "fst (getResources env (w\<lparr>localStorage := emptyStorage\<rparr>)) = MOCK_RESOURCES"
    using first_read_plain(1)
    by (simp add: getResources_def Let_def delay_def init_slots e)
  have con: "fst (getContacts env (w\<lparr>localStorage := emptyStorage\<rparr>)) = MOCK_CONTACTS"
    using first_read_plain(2)
    by (simp add: getContacts_def Let_def delay_def init_slots seededContacts_def e)
  have dated: "fst (getReports env (w\<lparr>localStorage := emptyStorage\<rparr>)) = MOCK_REPORTS (loadTime env)
        \<and> fst (getAlerts env (w\<lparr>localStorage := emptyStorage\<rparr>)) = MOCK_ALERTS (loadTime env)
        \<and> fst (getNews env (w\<lparr>localStorage := emptyStorage\<rparr>)) = MOCK_NEWS (loadTime env)"
    if r: "isoYearRange (loadTime env - 43200000) \<and> isoYearRange (loadTime env)"
  proof -
    from r have a: "isoYearRange (loadTime env - 43200000)" and b: "isoYearRange (loadTime env)"
      by simp_all
    have "fst (getReports env (w\<lparr>localStorage := emptyStorage\<rparr>)) = MOCK_REPORTS (loadTime env)"
      using first_read_reports [OF a b]
      by (simp add: getReports_def Let_def delay_def init_slots seededReports_def e)
    moreover have "fst (getAlerts env (w\<lparr>localStorage := emptyStorage\<rparr>))
        = MOCK_ALERTS (loadTime env)"
      using first_read_alerts [OF a b]
      by (simp add: getAlerts_def Let_def delay_def init_slots e)
    moreover have "fst (getNews env (w\<lparr>localStorage := emptyStorage\<rparr>))
        = MOCK_NEWS (loadTime env)"
      using first_read_news [OF a b]
      by (simp add: getNews_def Let_def delay_def init_slots e)
    ultimately show ?thesis by (intro conjI)
  qed
  have twice: "localStorage (snd (getReports env (snd (getReports env w))))
       = localStorage (snd (getReports env w))"
    by (simp add: getters_storage init_idem)
  have guarded: "isoYearRange (loadTime env - 43200000) \<and> isoYearRange (loadTime env) \<longrightarrow>
        fst (getReports env (w\<lparr>localStorage := emptyStorage\<rparr>)) = MOCK_REPORTS (loadTime env)
        \<and> fst (getAlerts env (w\<lparr>localStorage := emptyStorage\<rparr>)) = MOCK_ALERTS (loadTime env)
        \<and> fst (getNews env (w\<lparr>localStorage := emptyStorage\<rparr>)) = MOCK_NEWS (loadTime env)"
    using dated by (rule impI)
  from init_idem [of env st] seeded getters_storage [of env w] twice res con guarded
  show ?thesis by (intro conjI)
qed

theorem seeding_idempotent_witness:
  "isoYearRange (loadTime offlineEnv - 43200000) \<and> isoYearRange (loadTime offlineEnv)
   \<and> fst (getReports offlineEnv (initialWorld 0)) = MOCK_REPORTS 1704067200000
   \<and> fst (getAlerts offlineEnv (initialWorld 0)) = MOCK_ALERTS 1704067200000
   \<and> fst (getNews offlineEnv (initialWorld 0)) = MOCK_NEWS 1704067200000
   \<and> REPORTS (localStorage (snd (getReports offlineEnv (snd (getReports offlineEnv
         (initialWorld 0))))))
       = Some (map stringifyReport (MOCK_REPORTS 1704067200000))"
proof -
  have l: "loadTime offlineEnv = 1704067200000"
    by (simp add: offlineEnv_def onlineEnv_def)
  have r: "isoYearRange (loadTime offlineEnv - 43200000) \<and> isoYearRange (loadTime offlineEnv)"
    by (simp add: l isoYearRange_def)
  have w: "(initialWorld 0)\<lparr>localStorage := emptyStorage\<rparr> = initialWorld 0"
    "localStorage (initialWorld 0) = emptyStorage"
    by (simp_all add: initialWorld_def)
  note t = seeding_idempotent [of offlineEnv emptyStorage "initialWorld 0"]
  from t r have reads: "fst (getReports offlineEnv (initialWorld 0)) = MOCK_REPORTS 1704067200000
       \<and> fst (getAlerts offlineEnv (initialWorld 0)) = MOCK_ALERTS 1704067200000
       \<and> fst (getNews offlineEnv (initialWorld 0)) = MOCK_NEWS 1704067200000"
    unfolding w l by blast
  from t have "localStorage (snd (getReports offlineEnv (snd (getReports offlineEnv
         (initialWorld 0))))) = init offlineEnv emptyStorage"
    unfolding w by simp
  moreover from t have "REPORTS (init offlineEnv emptyStorage)
      = Some (map stringifyReport (MOCK_REPORTS 1704067200000))"
    unfolding l by simp
  ultimately have twice: "REPORTS (localStorage (snd (getReports offlineEnv
      (snd (getReports offlineEnv (initialWorld 0))))))
       = Some (map stringifyReport (MOCK_REPORTS 1704067200000))"
    by simp
  from r reads twice show ?thesis by (intro conjI) simp_all
qed

subsection \<open>Creating a report\<close>








subsection \<open>Verifying a report\<close>

lemma toISOString_sample: "toISOString 1704067200000 = ''2024-01-01T00:00:00.000Z''"
proof -
  have e: "(1704067200000::int) div msPerDay = 19723" "(1704067200000::int) mod msPerDay = 0"
    by (simp_all add: msPerDay_def)
  have y: "yearFromDay 19723 = 2024"
    by (simp add: yearFromDay_def yearDown_less yearDown_stop dayFromYear_def)
  have l: "leapYear 2024" by (simp add: leapYear_def)
  have n: "19723 - dayFromYear 2024 = 0" by (simp add: dayFromYear_def)
  have m: "monthFromDay True 0 = 1" "daysBeforeMonth True 1 = 0"
    by (simp_all add: monthFromDay_def daysBeforeMonth_def)
  show ?thesis
    by (simp add: toISOString_def Let_def e y l n m pad_2 pad_3 pad_4 digitChar_def)
qed

lemma newDate_sample: "newDate ''2024-01-01T00:00:00Z'' = Time 1704067200000"
  by (simp add: newDate_def field_def numOf_def isDigit_def digitVal_def makeDate_def leapYear_def
      daysBeforeMonth_def dayFromYear_def msPerDay_def Let_def)

lemma rewrite_dated_description:
  "rewriteValue (JString ''2024-01-01T00:00:00Z'') = JString ''2024-01-01T00:00:00.000Z''"
proof -
  have "dateShaped ''2024-01-01T00:00:00Z''"
    by (simp add: dateShaped_def isDigit_def)
  then show ?thesis
    by (simp add: rewriteValue_def dateReviver_def stringifyValue_def newDate_sample
        toISOString_sample)
qed

lemma rewrite_datedReport:
  "rewriteReport datedReport = datedReport\<lparr>description := JString ''2024-01-01T00:00:00.000Z''\<rparr>"
proof -
  have i: "isoYearRange 1704067200000" by (simp add: isoYearRange_def)
  have t: "stringifyValue (dateReviver k (JString ''2024-01-01T00:00:00.000Z''))
      = JString ''2024-01-01T00:00:00.000Z''" for k
    using rewrite_iso [OF i] by (simp add: toISOString_sample)
  have d: "stringifyValue (dateReviver k (JString ''2024-01-01T00:00:00Z''))
      = JString ''2024-01-01T00:00:00.000Z''" for k
    using rewrite_dated_description by (simp add: rewriteValue_def dateReviver_def)
  show ?thesis
    by (simp add: rewriteReport_def reviveReport_def stringifyReport_def datedReport_def t d
        rewrite_plain fixture_strings_plain)
qed

lemma verifyReport_stored:
  "REPORTS (localStorage (verifyReport env reportId w))
   = Some (map (\<lambda>r. stringifyReport
                  (if report_id (reviveReport r) = Str reportId
                   then (reviveReport r)\<lparr>verified := True\<rparr> else reviveReport r))
             (seededReports env (localStorage w)))"
  by (simp add: verifyReport_eq comp_def)

lemma revive_id_match:
  "\<not> dateShaped reportId \<Longrightarrow>
   (report_id (reviveReport r) = Str reportId) = (report_id r = JString reportId)"
  by (cases "report_id r") (auto simp: reviveReport_def dateReviver_def)

lemma verifyReport_frame_when_stable:
  assumes "list_all stableReport (seededReports env (localStorage w))"
    and "\<not> dateShaped reportId"
  shows "REPORTS (localStorage (verifyReport env reportId w))
     = Some (map (\<lambda>r. if report_id r = JString reportId then r\<lparr>verified := True\<rparr> else r)
               (seededReports env (localStorage w)))"
proof -
  have "stringifyReport (if report_id (reviveReport r) = Str reportId
                   then (reviveReport r)\<lparr>verified := True\<rparr> else reviveReport r)
      = (if report_id r = JString reportId then r\<lparr>verified := True\<rparr> else r)"
    if "stableReport r" for r
  proof -
    from that have s: "stringifyReport (reviveReport r) = r"
      by (simp add: stableReport_def rewriteReport_def)
    have "stringifyReport ((reviveReport r)\<lparr>verified := True\<rparr>)
        = (stringifyReport (reviveReport r))\<lparr>verified := True\<rparr>"
      by (simp add: stringifyReport_def)
    with s show ?thesis by (simp add: revive_id_match [OF assms(2)])
  qed
  with assms(1) show ?thesis
    unfolding verifyReport_stored by (simp add: list_all_iff)
qed

lemma createReport_stores_description:
  "description (stringifyReport (fst (createReport env
       \<lparr>payload_type = Str ''FLOOD'', payload_description = Str ''2024-01-01T00:00:00Z'',
        payload_coordinates = c\<rparr> w)))
   = JString ''2024-01-01T00:00:00Z''"
  by (simp add: createReport_eq stringifyReport_def stringifyValue_def)

text \<open>
  C2. The claim that \<open>verifyReport\<close> changes nothing but the \<open>verified\<close> flag of the
  matched record fails on a stored report whose description has the date shape: the
  reviver, which does not look at the key, turns the description into a Date on the
  read, and the write stores its ISO form. With the description
  \<open>2024-01-01T00:00:00Z\<close> the stored description becomes \<open>2024-01-01T00:00:00.000Z\<close>,
  for a matching identifier and for one that matches no record alike.
  (\<open>verifyReport_frame_when_stable\<close> above is the claim for collections that a read and
  a write leave unchanged.)
\<close>

theorem verifyReport_rewrites_dated_description:
  "REPORTS (localStorage datedWorld) = Some [datedReport]
   \<and> description datedReport = JString ''2024-01-01T00:00:00Z''
   \<and> REPORTS (localStorage (verifyReport offlineEnv ''r1'' datedWorld))
       = Some [datedReport\<lparr>description := JString ''2024-01-01T00:00:00.000Z'',
                            verified := True\<rparr>]
   \<and> REPORTS (localStorage (verifyReport offlineEnv ''no-such-id'' datedWorld))
       = Some [datedReport\<lparr>description := JString ''2024-01-01T00:00:00.000Z''\<rparr>]
   \<and> REPORTS (localStorage (verifyReport offlineEnv ''no-such-id'' datedWorld))
       \<noteq> REPORTS (localStorage datedWorld)"
proof -
  have s: "REPORTS (localStorage datedWorld) = Some [datedReport]"
    "seededReports env (localStorage datedWorld) = [datedReport]" for env
    by (simp_all add: datedWorld_def seededReports_def)
  have d: "description datedReport = JString ''2024-01-01T00:00:00Z''"
    by (simp add: datedReport_def)
  have i: "report_id (reviveReport datedReport) = Str ''r1''"
    by (simp add: reviveReport_def datedReport_def dateReviver_def fixture_strings_plain)
  have v: "stringifyReport ((reviveReport datedReport)\<lparr>verified := True\<rparr>)
      = (rewriteReport datedReport)\<lparr>verified := True\<rparr>"
    by (simp add: stringifyReport_def rewriteReport_def)
  have a: "REPORTS (localStorage (verifyReport offlineEnv ''r1'' datedWorld))
       = Some [datedReport\<lparr>description := JString ''2024-01-01T00:00:00.000Z'',
                            verified := True\<rparr>]"
    unfolding verifyReport_stored s by (simp add: i v rewrite_datedReport)
  have b: "REPORTS (localStorage (verifyReport offlineEnv ''no-such-id'' datedWorld))
       = Some [datedReport\<lparr>description := JString ''2024-01-01T00:00:00.000Z''\<rparr>]"
    unfolding verifyReport_stored s
    by (simp add: i rewrite_datedReport [unfolded rewriteReport_def])
  have c: "REPORTS (localStorage (verifyReport offlineEnv ''no-such-id'' datedWorld))
       \<noteq> REPORTS (localStorage datedWorld)"
    unfolding b s by (simp add: datedReport_def)
  from s(1) d a b c show ?thesis by (intro conjI)
qed

text \<open>
  C10. Every call of \<open>verifyReport\<close> adds exactly one effect to the trace, the
  \<open>db-reports-updated\<close> event, 700 ms after the call, whether or not the identifier
  matches a record.
\<close>

theorem verifyReport_dispatches_once:
  "trace (verifyReport env reportId w)
   = trace w @ [(clock w + 700, DispatchEvent ''db-reports-updated'' NoDetail)]"
  by (simp add: verifyReport_eq)

subsection \<open>Deleting a contact\<close>

lemma deleteContact_stored:
  "CONTACTS (localStorage (deleteContact env cid w))
   = Some (filter (\<lambda>c. contact_id c \<noteq> JString cid) (seededContacts (localStorage w)))"
  by (simp add: deleteContact_eq filter_map comp_def parse_id stringify_parse_contact)

lemma filter_out_the_one:
  assumes "distinct (map key (pre @ c # post))" and "key c = k"
  shows "filter (\<lambda>x. key x \<noteq> k) (pre @ c # post) = pre @ post"
proof -
  from assms have "k \<notin> key ` set pre" "k \<notin> key ` set post" by auto
  then have "\<forall>x \<in> set pre. key x \<noteq> k" "\<forall>x \<in> set post. key x \<noteq> k" by blast+
  then have "filter (\<lambda>x. key x \<noteq> k) pre = pre" "filter (\<lambda>x. key x \<noteq> k) post = post"
    by (simp_all add: filter_id_conv)
  with assms(2) show ?thesis by simp
qed

text \<open>
  C7. In a contacts collection with unique identifiers (the stored array, or the
  fixtures when nothing is stored), \<open>deleteContact\<close> removes the one record that bears
  the identifier and keeps the records before and after it in their order; when no
  record bears it the collection stays as it is.
\<close>

theorem deleteContact_removes_one:
  assumes "distinct (map contact_id (seededContacts (localStorage w)))"
  shows "(\<forall>pre c post.
            seededContacts (localStorage w) = pre @ c # post \<and> contact_id c = JString cid \<longrightarrow>
            CONTACTS (localStorage (deleteContact env cid w)) = Some (pre @ post))
       \<and> (JString cid \<notin> contact_id ` set (seededContacts (localStorage w)) \<longrightarrow>
            CONTACTS (localStorage (deleteContact env cid w))
            = Some (seededContacts (localStorage w)))"
proof (intro conjI allI impI)
  fix pre c post
  assume a: "seededContacts (localStorage w) = pre @ c # post \<and> contact_id c = JString cid"
  with assms have "distinct (map contact_id (pre @ c # post))" by simp
  then have "filter (\<lambda>x. contact_id x \<noteq> JString cid) (pre @ c # post) = pre @ post"
    using a by (intro filter_out_the_one) simp_all
  with a show "CONTACTS (localStorage (deleteContact env cid w)) = Some (pre @ post)"
    by (simp only: deleteContact_stored)
next
  assume "JString cid \<notin> contact_id ` set (seededContacts (localStorage w))"
  then have "\<forall>c \<in> set (seededContacts (localStorage w)). contact_id c \<noteq> JString cid"
    by (metis imageI)
  then have "filter (\<lambda>c. contact_id c \<noteq> JString cid) (seededContacts (localStorage w))
      = seededContacts (localStorage w)"
    by (simp add: filter_id_conv)
  then show "CONTACTS (localStorage (deleteContact env cid w))
      = Some (seededContacts (localStorage w))"
    by (simp add: deleteContact_stored)
qed

theorem deleteContact_witness:
  "distinct (map contact_id (seededContacts (localStorage (initialWorld 0))))
   \<and> seededContacts (localStorage (initialWorld 0))
       = [] @ stringifyContact (hd MOCK_CONTACTS) # map stringifyContact (tl MOCK_CONTACTS)
   \<and> contact_id (stringifyContact (hd MOCK_CONTACTS)) = JString ''c1''
   \<and> CONTACTS (localStorage (deleteContact offlineEnv ''c1'' (initialWorld 0)))
       = Some (map stringifyContact (tl MOCK_CONTACTS))
   \<and> JString ''c9'' \<notin> contact_id ` set (seededContacts (localStorage (initialWorld 0)))
   \<and> CONTACTS (localStorage (deleteContact offlineEnv ''c9'' (initialWorld 0)))
       = Some (seededContacts (localStorage (initialWorld 0)))"
proof -
  let ?w = "initialWorld 0"
  have s: "seededContacts (localStorage ?w)
      = [] @ stringifyContact (hd MOCK_CONTACTS) # map stringifyContact (tl MOCK_CONTACTS)"
    by (simp add: seededContacts_def initialWorld_def emptyStorage_def MOCK_CONTACTS_def)
  have i: "map contact_id (seededContacts (localStorage ?w)) = [JString ''c1'', JString ''c2'']"
    "contact_id (stringifyContact (hd MOCK_CONTACTS)) = JString ''c1''"
    by (simp_all add: s MOCK_CONTACTS_def stringifyContact_def stringifyValue_def)
  have d: "distinct (map contact_id (seededContacts (localStorage ?w)))"
    by (simp add: i(1))
  have "JString ''c9'' \<notin> set (map contact_id (seededContacts (localStorage ?w)))"
    by (simp add: i(1))
  then have n: "JString ''c9'' \<notin> contact_id ` set (seededContacts (localStorage ?w))"
    by simp
  from deleteContact_removes_one [OF d, of "''c1''" offlineEnv] s i(2)
  have one: "CONTACTS (localStorage (deleteContact offlineEnv ''c1'' ?w))
      = Some ([] @ map stringifyContact (tl MOCK_CONTACTS))"
    by blast
  from deleteContact_removes_one [OF d, of "''c9''" offlineEnv] n
  have none: "CONTACTS (localStorage (deleteContact offlineEnv ''c9'' ?w))
      = Some (seededContacts (localStorage ?w))"
    by blast
  show ?thesis using d s i(2) one n none by simp
qed

end
